theory Spec2Isabelle
  imports
    Complex_Main
    "HOL-Library.AList"
    "HOL-Library.Char_ord"
    "HOL-Library.List_Lexorder"
    "HOL-Library.Product_Lexorder"
    "HOL-Library.Sublist"
    "HOL-Library.Multiset"
    "HOL-Library.Word"
begin

section \<open>The client: hold detection in \<open>client.py\<close>\<close>

text \<open>
  \<open>client.py\<close> keeps two globals that the mouse callback touches: the dictionary
  \<open>config\<close> and \<open>left_button_press_time\<close>, which is \<open>None\<close> or the reading of
  \<open>time.time()\<close> taken at the last press of the left button. They are the fields of
  the record \<open>client\<close>. Readings of \<open>time.time()\<close> and the threshold
  \<open>config['click_time']\<close> are Python numbers and are taken as reals; the reading of
  the clock is an argument of the callback, since the callback is the only place that
  asks for it.
\<close>

record config =
  config_username :: string
  server_address :: string
  click_time :: real

record client =
  config :: config
  left_button_press_time :: "real option"

datatype button = Button_unknown | Button_left | Button_middle | Button_right

text \<open>
  \<open>on_click(x, y, button, pressed)\<close>. The second component of the result counts the
  threads started on \<open>take_screenshot_and_upload\<close> by this call, that is, the
  triggers it emits.
\<close>

definition on_click :: "client \<Rightarrow> real \<Rightarrow> int \<Rightarrow> int \<Rightarrow> button \<Rightarrow> bool \<Rightarrow> client \<times> nat" where
  "on_click s now x y b pressed =
     (if b = Button_left then
        (if pressed then (s\<lparr>left_button_press_time := Some now\<rparr>, 0)
         else
           (case left_button_press_time s of
              Some t0 \<Rightarrow>
                (let hold_duration = now - t0;
                     s' = s\<lparr>left_button_press_time := None\<rparr>
                 in if hold_duration \<ge> click_time (config s') then (s', 1) else (s', 0))
            | None \<Rightarrow> (s, 0)))
      else (s, 0))"

text \<open>
  The third dialog of \<open>show_config_window\<close>, after the text has been read as a
  float: the new threshold is stored only when it is positive.
\<close>

definition set_click_time :: "real \<Rightarrow> client \<Rightarrow> client" where
  "set_click_time new_time s =
     (if new_time > 0 then s\<lparr>config := (config s)\<lparr>click_time := new_time\<rparr>\<rparr> else s)"

section \<open>Strings and paths, as Python computes them on POSIX\<close>

text \<open>
  A Python \<open>str\<close> is modelled by its UTF-8 encoding, a list of 8-bit characters:
  equality of strings is equality of the encodings, and the order of the encodings
  (characters by code, lists lexicographically, a proper prefix first) is the order
  Python gives the strings. \<open>os.path\<close> is \<open>posixpath\<close>: the separator is \<open>/\<close>.
\<close>

definition startswith :: "string \<Rightarrow> string \<Rightarrow> bool" where
  "startswith s p = prefix p s"

definition endswith :: "string \<Rightarrow> string \<Rightarrow> bool" where
  "endswith s p = suffix p s"

text \<open>\<open>s.rfind(c)\<close>: the last index of the character, or \<open>-1\<close>.\<close>

fun rfind :: "string \<Rightarrow> char \<Rightarrow> int" where
  "rfind [] c = - 1"
| "rfind (x # xs) c =
     (let r = rfind xs c in if r \<ge> 0 then r + 1 else if x = c then 0 else - 1)"

text \<open>\<open>os.path.join(a, b)\<close> with two arguments.\<close>

definition join :: "string \<Rightarrow> string \<Rightarrow> string" where
  "join a b =
     (if startswith b ''/'' then b
      else if a = [] \<or> endswith a ''/'' then a @ b
      else a @ ''/'' @ b)"

text \<open>\<open>os.path.basename(p)\<close> is \<open>p[p.rfind('/') + 1:]\<close>.\<close>

definition basename :: "string \<Rightarrow> string" where
  "basename p = drop (nat (rfind p CHR ''/'' + 1)) p"

text \<open>
  \<open>os.path.splitext(p)\<close>: the extension starts at the last dot of the last component,
  unless only dots precede it there. \<open>has_name_before\<close> is the loop that skips
  the leading dots, from index \<open>i\<close> up to the index of the last dot.
\<close>

function has_name_before :: "string \<Rightarrow> nat \<Rightarrow> nat \<Rightarrow> bool" where
  "has_name_before p i dot_index =
     (if i < dot_index then
        (if p ! i \<noteq> CHR ''.'' then True else has_name_before p (i + 1) dot_index)
      else False)"
  by pat_completeness auto
termination
  by (relation "measure (\<lambda>(p, i, dot_index). dot_index - i)") auto

declare has_name_before.simps [simp del]

definition splitext :: "string \<Rightarrow> string \<times> string" where
  "splitext p =
     (let sep_index = rfind p CHR ''/'';
          dot_index = rfind p CHR ''.''
      in if dot_index > sep_index \<and> has_name_before p (nat (sep_index + 1)) (nat dot_index)
         then (take (nat dot_index) p, drop (nat dot_index) p)
         else (p, []))"

text \<open>
  \<open>str.lower()\<close> on the letters A to Z; the other characters are left as they are.
  Python lowers non-ASCII letters too, but the result is only ever compared with the six
  extensions below, and no character outside A to Z has one of their letters as its
  lower case.
\<close>

definition ascii_uppercase :: string where
  "ascii_uppercase = ''ABCDEFGHIJKLMNOPQRSTUVWXYZ''"

definition ascii_lowercase :: string where
  "ascii_lowercase = ''abcdefghijklmnopqrstuvwxyz''"

definition lower_char :: "char \<Rightarrow> char" where
  "lower_char c = (case map_of (zip ascii_uppercase ascii_lowercase) c of Some d \<Rightarrow> d | None \<Rightarrow> c)"

definition lower :: "string \<Rightarrow> string" where
  "lower s = map lower_char s"

text \<open>\<open>p.split('/')\<close>, and the names a path walks through: its non-empty parts.\<close>

fun split_sep :: "string \<Rightarrow> string list" where
  "split_sep [] = [[]]"
| "split_sep (c # cs) =
     (if c = CHR ''/'' then [] # split_sep cs
      else (case split_sep cs of x # xs \<Rightarrow> (c # x) # xs | [] \<Rightarrow> [[c]]))"

definition components :: "string \<Rightarrow> string list" where
  "components p = filter (\<lambda>c. c \<noteq> []) (split_sep p)"

section \<open>The file system below the working directory\<close>

text \<open>
  The server only touches \<open>uploads\<close> and what is below it. The file system is a table
  from paths, given by their names from the working directory down, to what is there:
  a regular file with its bytes, or a directory. The order of the table is the order in
  which \<open>os.listdir\<close> hands out names, which the operating system chooses. The model
  has no symbolic links and gives \<open>.\<close> and \<open>..\<close> no meaning: it is the file system as
  seen through relative paths made of plain names.

  An operation that the operating system can refuse for a reason outside the table (a
  full disk, a permission, a device error) takes that refusal as an argument.
\<close>

type_synonym path = "string list"
type_synonym bytes = "8 word list"

datatype entry = File bytes | Dir

type_synonym filesystem = "(path \<times> entry) list"

datatype os_error =
  FileNotFoundError | NotADirectoryError | IsADirectoryError | FileExistsError | OSError

definition lookup :: "filesystem \<Rightarrow> path \<Rightarrow> entry option" where
  "lookup t p = (if p = [] then Some Dir else map_of t p)"

definition path_exists :: "filesystem \<Rightarrow> string \<Rightarrow> bool" where
  "path_exists t s = (lookup t (components s) \<noteq> None)"

definition isdir :: "filesystem \<Rightarrow> string \<Rightarrow> bool" where
  "isdir t s = (lookup t (components s) = Some Dir)"

definition children :: "filesystem \<Rightarrow> path \<Rightarrow> string list" where
  "children t d = map (\<lambda>(q, e). last q) (filter (\<lambda>(q, e). q \<noteq> [] \<and> butlast q = d) t)"

definition listdir :: "filesystem \<Rightarrow> string \<Rightarrow> os_error + string list" where
  "listdir t s =
     (case lookup t (components s) of
        None \<Rightarrow> Inl FileNotFoundError
      | Some (File _) \<Rightarrow> Inl NotADirectoryError
      | Some Dir \<Rightarrow> Inr (children t (components s)))"

text \<open>
  \<open>os.makedirs(path, exist_ok=True)\<close>: every missing directory on the way is created;
  a regular file on the way, or at the end, makes it raise.
\<close>

fun mkdirs :: "filesystem \<Rightarrow> path \<Rightarrow> path \<Rightarrow> os_error + filesystem" where
  "mkdirs t pre [] = Inr t"
| "mkdirs t pre (c # cs) =
     (case lookup t (pre @ [c]) of
        Some Dir \<Rightarrow> mkdirs t (pre @ [c]) cs
      | Some (File _) \<Rightarrow> Inl (if cs = [] then FileExistsError else NotADirectoryError)
      | None \<Rightarrow> mkdirs (t @ [(pre @ [c], Dir)]) (pre @ [c]) cs)"

datatype io_fault = No_fault | Makedirs_fault | Open_fault | Copy_fault nat

definition makedirs :: "filesystem \<Rightarrow> string \<Rightarrow> io_fault \<Rightarrow> os_error + filesystem" where
  "makedirs t s fault =
     (if fault = Makedirs_fault then Inl OSError else mkdirs t [] (components s))"

text \<open>
  \<open>with open(filepath, "wb") as buffer: shutil.copyfileobj(src, buffer)\<close>. Opening
  creates the file, or empties the one that is there, under its final name; the bytes
  are then copied into it. \<open>Copy_fault n\<close> is a copy that raises once \<open>n\<close> bytes are
  in the file. The result is the file system the statement leaves and the exception it
  raises, if any.
\<close>

definition write_upload ::
  "filesystem \<Rightarrow> string \<Rightarrow> bytes \<Rightarrow> io_fault \<Rightarrow> filesystem \<times> os_error option" where
  "write_upload t s data fault =
     (let p = components s in
      if fault = Open_fault then (t, Some OSError)
      else
        (case lookup t p of
           Some Dir \<Rightarrow> (t, Some IsADirectoryError)
         | _ \<Rightarrow>
           (case lookup t (butlast p) of
              None \<Rightarrow> (t, Some FileNotFoundError)
            | Some (File _) \<Rightarrow> (t, Some NotADirectoryError)
            | Some Dir \<Rightarrow>
                (case fault of
                   Copy_fault n \<Rightarrow> (AList.update p (File (take n data)) t, Some OSError)
                 | _ \<Rightarrow> (AList.update p (File data) t, None)))))"

text \<open>
  \<open>shutil.rmtree(path)\<close>. When it completes, the directory and all below it are gone.
  When it raises, it has removed some of what is below the directory and not the
  directory itself: \<open>Rm_fails gone\<close> names the removed files and subtrees.
\<close>

datatype rm_outcome = Rm_ok | Rm_fails "path list"

definition rmtree :: "filesystem \<Rightarrow> string \<Rightarrow> rm_outcome \<Rightarrow> filesystem \<times> os_error option" where
  "rmtree t s outcome =
     (let d = components s in
      case outcome of
        Rm_ok \<Rightarrow> (filter (\<lambda>(q, e). \<not> prefix d q) t, None)
      | Rm_fails gone \<Rightarrow>
          (filter (\<lambda>(q, e). \<not> list_ex (\<lambda>g. strict_prefix d g \<and> prefix g q) gone) t,
           Some OSError))"

section \<open>The server: \<open>web_run.py\<close>\<close>

text \<open>
  \<open>datetime.now()\<close> gives the local wall-clock time as a naive \<open>datetime\<close>, which
  Python compares field by field, from the year down to the microsecond. Every reading
  of the clock is an argument of the operation that takes it.
\<close>

record datetime =
  year :: nat
  month :: nat
  day :: nat
  hour :: nat
  minute :: nat
  second :: nat
  microsecond :: nat

definition field_tuple :: "datetime \<Rightarrow> nat \<times> nat \<times> nat \<times> nat \<times> nat \<times> nat \<times> nat" where
  "field_tuple d = (year d, month d, day d, hour d, minute d, second d, microsecond d)"

definition later :: "datetime \<Rightarrow> datetime \<Rightarrow> bool" where
  "later a b = (field_tuple a > field_tuple b)"

text \<open>
  \<open>strftime("%Y%m%d_%H%M%S%f")\<close>: each field in decimal with leading zeros, four
  digits for the year, six for the microsecond, two for the others. The fields of a
  \<open>datetime\<close> never need more digits than that.
\<close>

definition digit :: "nat \<Rightarrow> char" where
  "digit n = ''0123456789'' ! (n mod 10)"

definition digits2 :: "nat \<Rightarrow> string" where
  "digits2 n = [digit (n div 10), digit n]"

definition digits4 :: "nat \<Rightarrow> string" where
  "digits4 n = [digit (n div 1000), digit (n div 100), digit (n div 10), digit n]"

definition digits6 :: "nat \<Rightarrow> string" where
  "digits6 n = [digit (n div 100000), digit (n div 10000), digit (n div 1000),
                digit (n div 100), digit (n div 10), digit n]"

definition strftime :: "datetime \<Rightarrow> string" where
  "strftime d =
     digits4 (year d) @ digits2 (month d) @ digits2 (day d) @ ''_'' @
     digits2 (hour d) @ digits2 (minute d) @ digits2 (second d) @ digits6 (microsecond d)"

text \<open>The two constants of the module; the second is the UTF-8 encoding of its value.\<close>

definition UPLOAD_DIR :: string where
  "UPLOAD_DIR = ''uploads''"

definition ALL_USERS_OPTION :: string where
  "ALL_USERS_OPTION =
     [CHR 0xE6, CHR 0x89, CHR 0x80, CHR 0xE6, CHR 0x9C, CHR 0x89,
      CHR 0xE7, CHR 0x94, CHR 0xA8, CHR 0xE6, CHR 0x88, CHR 0xB7]"

text \<open>
  The state of the server: the file system, and \<open>app_state._last_update_time\<close>.
\<close>

record server =
  storage :: filesystem
  last_update_time :: datetime

definition mark_updated :: "server \<Rightarrow> datetime \<Rightarrow> server" where
  "mark_updated s now = s\<lparr>last_update_time := now\<rparr>"

definition get_all_users :: "filesystem \<Rightarrow> os_error + string list" where
  "get_all_users t =
     (if \<not> path_exists t UPLOAD_DIR then Inr []
      else
        (case listdir t UPLOAD_DIR of
           Inl e \<Rightarrow> Inl e
         | Inr ds \<Rightarrow> Inr (sort (filter (\<lambda>d. isdir t (join UPLOAD_DIR d)) ds))))"

definition image_extensions :: "string set" where
  "image_extensions = {''.jpg'', ''.jpeg'', ''.png'', ''.gif'', ''.bmp'', ''.webp''}"

text \<open>
  The body shared by the two loops of \<open>get_user_images\<close>: the names of a directory
  that pass the test on the extension, each joined to the directory.
\<close>

definition image_paths_in :: "string \<Rightarrow> string list \<Rightarrow> string list" where
  "image_paths_in user_dir names =
     map (join user_dir) (filter (\<lambda>f. lower (snd (splitext f)) \<in> image_extensions) names)"

text \<open>The loop over all users; \<open>acc\<close> is \<open>image_paths\<close> so far.\<close>

fun scan_users :: "filesystem \<Rightarrow> string list \<Rightarrow> string list \<Rightarrow> os_error + string list" where
  "scan_users t acc [] = Inr acc"
| "scan_users t acc (user # users) =
     (let user_dir = join UPLOAD_DIR user in
      case listdir t user_dir of
        Inl e \<Rightarrow> Inl e
      | Inr names \<Rightarrow> scan_users t (acc @ image_paths_in user_dir names) users)"

text \<open>
  \<open>sorted(xs, key=os.path.basename, reverse=True)\<close>: descending in the key, and
  elements with equal keys keep the order they had.
\<close>

definition sorted_reverse :: "string list \<Rightarrow> string list" where
  "sorted_reverse xs = rev (sort_key basename (rev xs))"

definition get_user_images :: "filesystem \<Rightarrow> string \<Rightarrow> os_error + string list" where
  "get_user_images t username =
     (if username = ALL_USERS_OPTION then
        (case get_all_users t of
           Inl e \<Rightarrow> Inl e
         | Inr users \<Rightarrow>
             (case scan_users t [] users of
                Inl e \<Rightarrow> Inl e
              | Inr image_paths \<Rightarrow> Inr (sorted_reverse image_paths)))
      else if username \<noteq> [] then
        (let user_dir = join UPLOAD_DIR username in
         if path_exists t user_dir then
           (case listdir t user_dir of
              Inl e \<Rightarrow> Inl e
            | Inr names \<Rightarrow> Inr (sorted_reverse (image_paths_in user_dir names)))
         else Inr (sorted_reverse []))
      else Inr (sorted_reverse []))"


text \<open>
  The extension of a file name, in the words of the claims about listing: the part of
  the name from its last dot on, and nothing when the name has no dot. It is compared
  below with what \<open>os.path.splitext\<close> finds in the name under which the file is
  stored.
\<close>

definition extension :: "string \<Rightarrow> string" where
  "extension name =
     (if CHR ''.'' \<in> set name
      then CHR ''.'' # rev (takeWhile (\<lambda>c. c \<noteq> CHR ''.'') (rev name))
      else [])"

text \<open>
  The names in a directory are not empty and hold no separator: this is what the
  operating system guarantees of every entry.
\<close>

definition wf_names :: "filesystem \<Rightarrow> bool" where
  "wf_names t = list_all (\<lambda>(q, e). list_all (\<lambda>c. c \<noteq> [] \<and> CHR ''/'' \<notin> set c) q) t"

text \<open>
  The stored images, in the words of the specification. A stored image is the pair of
  its owning user and its stored name. The persisted layout is one root directory
  \<open>uploads\<close>, below it one directory for each user, and in the directory of a user
  the files stored for that user, every name being a plain one: not empty and without
  separator. Nothing else is in the table, and no path is there twice.
\<close>

definition plain :: "string \<Rightarrow> bool" where
  "plain c = (c \<noteq> [] \<and> CHR ''/'' \<notin> set c)"

fun layout_entry :: "filesystem \<Rightarrow> path \<times> entry \<Rightarrow> bool" where
  "layout_entry t ([base], Dir) = (base = ''uploads'')"
| "layout_entry t ([base, user], Dir) =
     (base = ''uploads'' \<and> plain user \<and> ([base], Dir) \<in> set t)"
| "layout_entry t ([base, user, name], File b) =
     (base = ''uploads'' \<and> plain user \<and> plain name \<and> ([base, user], Dir) \<in> set t)"
| "layout_entry t _ = False"

definition layout :: "filesystem \<Rightarrow> bool" where
  "layout t = (distinct (map fst t) \<and> list_all (layout_entry t) t)"






text \<open>
  \<open>delete_user_images\<close>: the new state and the boolean it returns. It catches what
  \<open>shutil.rmtree\<close> raises.
\<close>

definition delete_user_images ::
  "server \<Rightarrow> datetime \<Rightarrow> rm_outcome \<Rightarrow> string \<Rightarrow> server \<times> bool" where
  "delete_user_images s now outcome username =
     (if username = [] \<or> username = ALL_USERS_OPTION then (s, False)
      else
        (let user_dir = join UPLOAD_DIR username in
         if \<not> isdir (storage s) user_dir then (s, False)
         else
           (case rmtree (storage s) user_dir outcome of
              (t, None) \<Rightarrow> (mark_updated (s\<lparr>storage := t\<rparr>) now, True)
            | (t, Some e) \<Rightarrow> (s\<lparr>storage := t\<rparr>, False))))"

text \<open>
  \<open>api_upload_image\<close>. The request carries the two form fields and the uploaded file:
  its name, its declared content type and its bytes. A part that declares no content type
  has \<open>content_type\<close> \<open>None\<close>, and the call of \<open>startswith\<close> on it raises
  \<open>AttributeError\<close>. An exception that leaves the function is the left summand of the
  result: the \<open>HTTPException\<close> it raises itself, that \<open>AttributeError\<close>, or the
  error of the operating system it lets through. \<open>file_closed\<close> tells whether
  the function has closed \<open>image.file\<close>; the parameter \<open>image\<close> is \<open>img\<close> here. It reads the clock twice: \<open>now1\<close> for the
  name of the file, \<open>now2\<close> in \<open>mark_updated\<close>.
\<close>

record upload_file =
  filename :: string
  content_type :: "string option"
  file_data :: bytes

record response =
  status_code :: nat
  message :: string
  server_path :: string

datatype exn = HTTPException nat string | AttributeError | Unhandled os_error

record outcome =
  state :: server
  file_closed :: bool
  result :: "exn + response"

definition detail_wrong_type :: string where
  "detail_wrong_type =
     [CHR 0xE6, CHR 0x96, CHR 0x87, CHR 0xE4, CHR 0xBB, CHR 0xB6, CHR 0xE7, CHR 0xB1,
      CHR 0xBB, CHR 0xE5, CHR 0x9E, CHR 0x8B, CHR 0xE9, CHR 0x94, CHR 0x99, CHR 0xE8,
      CHR 0xAF, CHR 0xAF, CHR 0xEF, CHR 0xBC, CHR 0x8C, CHR 0xE8, CHR 0xAF, CHR 0xB7,
      CHR 0xE4, CHR 0xB8, CHR 0x8A, CHR 0xE4, CHR 0xBC, CHR 0xA0, CHR 0xE5, CHR 0x9B,
      CHR 0xBE, CHR 0xE7, CHR 0x89, CHR 0x87, CHR 0xE3, CHR 0x80, CHR 0x82]"

definition message_uploaded :: string where
  "message_uploaded =
     [CHR 0xE5, CHR 0x9B, CHR 0xBE, CHR 0xE7, CHR 0x89, CHR 0x87, CHR 0xE4, CHR 0xB8,
      CHR 0x8A, CHR 0xE4, CHR 0xBC, CHR 0xA0, CHR 0xE6, CHR 0x88, CHR 0x90, CHR 0xE5,
      CHR 0x8A, CHR 0x9F]"

definition api_upload_image ::
  "server \<Rightarrow> datetime \<Rightarrow> datetime \<Rightarrow> io_fault \<Rightarrow> string \<Rightarrow> string \<Rightarrow> upload_file \<Rightarrow> outcome" where
  "api_upload_image s now1 now2 fault username timestamp img =
     (case content_type img of
        None \<Rightarrow> \<lparr>state = s, file_closed = False, result = Inl AttributeError\<rparr>
      | Some ct \<Rightarrow>
      if \<not> startswith ct ''image/'' then
        \<lparr>state = s, file_closed = False, result = Inl (HTTPException 400 detail_wrong_type)\<rparr>
      else
        (let user_dir = join UPLOAD_DIR username in
         case makedirs (storage s) user_dir fault of
           Inl e \<Rightarrow> \<lparr>state = s, file_closed = False, result = Inl (Unhandled e)\<rparr>
         | Inr t1 \<Rightarrow>
             (let server_timestamp = strftime now1;
                  filename' = server_timestamp @ ''_'' @ filename img;
                  filepath = join user_dir filename'
              in case write_upload t1 filepath (file_data img) fault of
                   (t2, Some e) \<Rightarrow>
                     \<lparr>state = s\<lparr>storage := t2\<rparr>, file_closed = True,
                      result = Inl (Unhandled e)\<rparr>
                 | (t2, None) \<Rightarrow>
                     \<lparr>state = mark_updated (s\<lparr>storage := t2\<rparr>) now2, file_closed = True,
                      result = Inr \<lparr>status_code = 201, message = message_uploaded,
                                    server_path = filepath\<rparr>\<rparr>)))"

text \<open>
  The two handlers of the page that the timer drives. \<open>update_ui_components\<close> reads the
  users and the images again and hands the viewer the current \<open>last_update_time\<close>;
  \<open>check_for_updates\<close> does so only when that time is later than the one the viewer
  holds, and otherwise hands the viewer's own value back.
\<close>

record ui =
  choices :: "string list"
  selected :: string
  gallery :: "string list"
  client_last_update :: datetime

datatype tick = Refresh ui | Skip datetime

definition update_ui_components :: "server \<Rightarrow> string \<Rightarrow> os_error + ui" where
  "update_ui_components s username =
     (case get_all_users (storage s) of
        Inl e \<Rightarrow> Inl e
      | Inr users \<Rightarrow>
          (let all_users_from_disk = ALL_USERS_OPTION # users;
               username_to_display =
                 (if username \<notin> set all_users_from_disk then ALL_USERS_OPTION else username)
           in case get_user_images (storage s) username_to_display of
                Inl e \<Rightarrow> Inl e
              | Inr images_to_display \<Rightarrow>
                  Inr \<lparr>choices = all_users_from_disk, selected = username_to_display,
                       gallery = images_to_display,
                       client_last_update = last_update_time s\<rparr>))"

definition check_for_updates :: "server \<Rightarrow> string \<Rightarrow> datetime \<Rightarrow> os_error + tick" where
  "check_for_updates s username last_known_update =
     (if later (last_update_time s) last_known_update then
        (case update_ui_components s username of
           Inl e \<Rightarrow> Inl e
         | Inr u \<Rightarrow> Inr (Refresh u))
      else Inr (Skip last_known_update))"

section \<open>A small installation\<close>

text \<open>
  The concrete values on which the theorems are run: a server that has just started,
  with an empty \<open>uploads\<close> directory; two readings of the clock one microsecond apart;
  and the upload the client sends, a file named \<open>screenshot.png\<close> declared as
  \<open>image/png\<close>.
\<close>

definition clock0 :: datetime where
  "clock0 = \<lparr>year = 2024, month = 1, day = 2, hour = 3, minute = 4, second = 5,
              microsecond = 6\<rparr>"

definition clock1 :: datetime where
  "clock1 = \<lparr>year = 2024, month = 1, day = 2, hour = 3, minute = 4, second = 5,
              microsecond = 7\<rparr>"

definition fresh_storage :: filesystem where
  "fresh_storage = [([''uploads''], Dir)]"

definition server0 :: server where
  "server0 = \<lparr>storage = fresh_storage, last_update_time = clock0\<rparr>"

definition screenshot :: upload_file where
  "screenshot = \<lparr>filename = ''screenshot.png'', content_type = Some ''image/png'',
                  file_data = [0x89, 0x50, 0x4E, 0x47]\<rparr>"

text \<open>The server after \<open>alice\<close> has uploaded that file once.\<close>

definition alice_storage :: filesystem where
  "alice_storage =
     [([''uploads''], Dir), ([''uploads'', ''alice''], Dir),
      ([''uploads'', ''alice'', ''20240102_030405000006_screenshot.png''],
       File [0x89, 0x50, 0x4E, 0x47])]"

definition server1 :: server where
  "server1 = \<lparr>storage = alice_storage, last_update_time = clock1\<rparr>"

text \<open>
  A server with two users: \<open>alice\<close> has two images and a text file, \<open>bob\<close> has
  one image. The directories are listed in the order the operating system chose.
\<close>

definition gallery_storage :: filesystem where
  "gallery_storage =
     [([''uploads''], Dir),
      ([''uploads'', ''bob''], Dir),
      ([''uploads'', ''alice''], Dir),
      ([''uploads'', ''alice'', ''20240102_030405000006_screenshot.png''], File [0x89, 0x50]),
      ([''uploads'', ''bob'', ''20240102_030405000007_screenshot.png''], File [0x89]),
      ([''uploads'', ''alice'', ''20240102_030405000008_notes.txt''], File [0x68, 0x69]),
      ([''uploads'', ''alice'', ''20240102_030405000009_photo.JPG''], File [0xFF, 0xD8])]"

text \<open>An upload that declares itself as plain text.\<close>

definition text_note :: upload_file where
  "text_note = \<lparr>filename = ''notes.txt'', content_type = Some ''text/plain'',
                 file_data = [0x68, 0x69]\<rparr>"

text \<open>An upload declared as an image whose name is that of a text file.\<close>

definition mislabelled :: upload_file where
  "mislabelled = \<lparr>filename = ''notes.txt'', content_type = Some ''image/png'',
                   file_data = [0x68, 0x69]\<rparr>"

section \<open>Hold detection: the claims\<close>

text \<open>
  C3. A press of the left button at time \<open>t0\<close>, followed after \<open>d\<close> seconds by its
  release, starts exactly one upload thread when \<open>d\<close> is at least the threshold that
  the configuration holds when the release arrives, and none when \<open>d\<close> is below it.
  The configuration \<open>c\<close> in force at the release is arbitrary and need not be the one
  at the press, and \<open>d\<close> equal to the threshold triggers.
\<close>

theorem hold_triggers_iff_threshold_reached:
  "snd (on_click ((fst (on_click s t0 x y Button_left True))\<lparr>config := c\<rparr>)
          (t0 + d) x' y' Button_left False)
     = (if d \<ge> click_time c then 1 else 0)"
  by (simp add: on_click_def Let_def)

text \<open>
  C7. A release of the left button while no press is pending changes nothing and starts
  no thread; the callback has no failing branch, so it returns.
\<close>

theorem release_without_press_is_noop:
  "left_button_press_time s = None \<Longrightarrow> on_click s now x y Button_left False = (s, 0)"
  by (simp add: on_click_def)

theorem release_without_press_is_noop_witness:
  "left_button_press_time
      \<lparr>config = \<lparr>config_username = ''default_user'', server_address = ''http://127.0.0.1:7860/'',
                 click_time = 4\<rparr>, left_button_press_time = None\<rparr> = None
   \<and> on_click
        \<lparr>config = \<lparr>config_username = ''default_user'', server_address = ''http://127.0.0.1:7860/'',
                   click_time = 4\<rparr>, left_button_press_time = None\<rparr> 10 0 0 Button_left False
      = (\<lparr>config = \<lparr>config_username = ''default_user'', server_address = ''http://127.0.0.1:7860/'',
                    click_time = 4\<rparr>, left_button_press_time = None\<rparr>, 0)"
  using release_without_press_is_noop
    [of "\<lparr>config = \<lparr>config_username = ''default_user'', server_address = ''http://127.0.0.1:7860/'',
                     click_time = 4\<rparr>, left_button_press_time = None\<rparr>" 10 0 0]
  by simp

text \<open>
  C8. Two presses of the left button at \<open>t1\<close> and then \<open>t2\<close> with no release between
  them leave the state that the second press alone would leave: one pending time, \<open>t2\<close>.
  The release that follows at \<open>t3\<close> therefore triggers exactly when \<open>t3 - t2\<close> reaches
  the threshold, whatever \<open>t1\<close> was.
\<close>

theorem second_press_replaces_pending:
  "fst (on_click (fst (on_click s t1 x y Button_left True)) t2 x' y' Button_left True)
     = fst (on_click s t2 x' y' Button_left True)
   \<and> left_button_press_time
       (fst (on_click (fst (on_click s t1 x y Button_left True)) t2 x' y' Button_left True))
     = Some t2
   \<and> snd (on_click
            (fst (on_click (fst (on_click s t1 x y Button_left True)) t2 x' y' Button_left True))
            t3 x'' y'' Button_left False)
     = (if t3 - t2 \<ge> click_time (config s) then 1 else 0)"
  by (simp add: on_click_def Let_def)

section \<open>Ingest: what a failed write leaves behind\<close>

text \<open>The equations that evaluate the model on concrete values.\<close>

lemmas path_eval = startswith_def endswith_def join_def basename_def splitext_def
  has_name_before.simps lower_def lower_char_def ascii_uppercase_def ascii_lowercase_def
  components_def UPLOAD_DIR_def suffix_to_prefix

lemmas fs_eval = lookup_def path_exists_def isdir_def children_def listdir_def makedirs_def
  write_upload_def rmtree_def

lemmas clock_eval = strftime_def digits2_def digits4_def digits6_def digit_def field_tuple_def
  later_def

lemmas example_defs = clock0_def clock1_def fresh_storage_def server0_def screenshot_def
  alice_storage_def server1_def

lemma upload_version:
  "last_update_time (state (api_upload_image s now1 now2 fault username timestamp img)) =
     (case result (api_upload_image s now1 now2 fault username timestamp img) of
        Inl _ \<Rightarrow> last_update_time s | Inr _ \<Rightarrow> now2)"
  by (simp add: api_upload_image_def Let_def mark_updated_def split: sum.splits prod.splits option.splits)

lemma upload_write_raises:
  assumes "content_type img = Some ct" "startswith ct ''image/''"
    and "makedirs (storage s) (join UPLOAD_DIR username) fault = Inr t1"
    and "write_upload t1 (join (join UPLOAD_DIR username) (strftime now1 @ ''_'' @ filename img))
        (file_data img) fault = (t2, Some e)"
  shows "api_upload_image s now1 now2 fault username timestamp img =
     \<lparr>state = s\<lparr>storage := t2\<rparr>, file_closed = True, result = Inl (Unhandled e)\<rparr>"
  unfolding api_upload_image_def Let_def using assms by simp

text \<open>
  C10. When the \<open>with open(...)\<close> statement of \<open>api_upload_image\<close> raises, the
  function lets the error through, has closed \<open>image.file\<close>, and has not called
  \<open>mark_updated\<close>: \<open>last_update_time\<close> is what it was. Conversely, a call after which
  \<open>last_update_time\<close> differs has returned its response: the time only changes on the
  path that succeeds.
\<close>

theorem failed_write_leaves_version:
  "(content_type img = Some ct \<longrightarrow> startswith ct ''image/'' \<longrightarrow>
    makedirs (storage s) (join UPLOAD_DIR username) fault = Inr t1 \<longrightarrow>
    write_upload t1 (join (join UPLOAD_DIR username) (strftime now1 @ ''_'' @ filename img))
      (file_data img) fault = (t2, Some e) \<longrightarrow>
      result (api_upload_image s now1 now2 fault username timestamp img) = Inl (Unhandled e) \<and>
      file_closed (api_upload_image s now1 now2 fault username timestamp img) \<and>
      last_update_time (state (api_upload_image s now1 now2 fault username timestamp img))
        = last_update_time s)
   \<and> (last_update_time (state (api_upload_image s now1 now2 fault username timestamp img))
         \<noteq> last_update_time s \<longrightarrow>
       (\<exists>r. result (api_upload_image s now1 now2 fault username timestamp img) = Inr r))"
proof (intro conjI impI)
  assume "last_update_time (state (api_upload_image s now1 now2 fault username timestamp img))
            \<noteq> last_update_time s"
  then show "\<exists>r. result (api_upload_image s now1 now2 fault username timestamp img) = Inr r"
    by (cases "result (api_upload_image s now1 now2 fault username timestamp img)")
       (simp_all add: upload_version)
qed (simp_all add: upload_write_raises)


theorem failed_write_leaves_version_witness:
  "content_type screenshot = Some ''image/png'' \<and> startswith ''image/png'' ''image/'' \<and>
   makedirs (storage server0) (join UPLOAD_DIR ''alice'') (Copy_fault 2)
     = Inr [([''uploads''], Dir), ([''uploads'', ''alice''], Dir)] \<and>
   write_upload [([''uploads''], Dir), ([''uploads'', ''alice''], Dir)]
       (join (join UPLOAD_DIR ''alice'') (strftime clock0 @ ''_'' @ filename screenshot))
       (file_data screenshot) (Copy_fault 2)
     = ([([''uploads''], Dir), ([''uploads'', ''alice''], Dir),
         ([''uploads'', ''alice'', ''20240102_030405000006_screenshot.png''], File [0x89, 0x50])],
        Some OSError) \<and>
   result (api_upload_image server0 clock0 clock1 (Copy_fault 2) ''alice'' ''2024-01-02T03:04:05''
             screenshot) = Inl (Unhandled OSError) \<and>
   file_closed (api_upload_image server0 clock0 clock1 (Copy_fault 2) ''alice''
             ''2024-01-02T03:04:05'' screenshot) \<and>
   last_update_time (state (api_upload_image server0 clock0 clock1 (Copy_fault 2) ''alice''
             ''2024-01-02T03:04:05'' screenshot)) = last_update_time server0"
proof -
  have a: "content_type screenshot = Some ''image/png'' \<and> startswith ''image/png'' ''image/''"
    by (simp add: path_eval example_defs)
  have b: "makedirs (storage server0) (join UPLOAD_DIR ''alice'') (Copy_fault 2)
     = Inr [([''uploads''], Dir), ([''uploads'', ''alice''], Dir)]"
    by (simp add: path_eval fs_eval example_defs)
  have c: "write_upload [([''uploads''], Dir), ([''uploads'', ''alice''], Dir)]
       (join (join UPLOAD_DIR ''alice'') (strftime clock0 @ ''_'' @ filename screenshot))
       (file_data screenshot) (Copy_fault 2)
     = ([([''uploads''], Dir), ([''uploads'', ''alice''], Dir),
         ([''uploads'', ''alice'', ''20240102_030405000006_screenshot.png''], File [0x89, 0x50])],
        Some OSError)"
    by (simp add: path_eval fs_eval clock_eval example_defs)
  from failed_write_leaves_version
         [where img = screenshot and ct = "''image/png''" and s = server0
            and username = "''alice''" and fault = "Copy_fault 2" and ?now1.0 = clock0
            and e = OSError and ?now2.0 = clock1 and timestamp = "''2024-01-02T03:04:05''"]
       a b c
  show ?thesis by blast
qed


lemma lookup_update_same: "p \<noteq> [] \<Longrightarrow> lookup (AList.update p v t) p = Some v"
  by (simp add: lookup_def update_conv')

lemma write_upload_copy_fault:
  assumes "lookup t (components s) \<noteq> Some Dir"
    and "lookup t (butlast (components s)) = Some Dir"
  shows "write_upload t s data (Copy_fault n) =
           (AList.update (components s) (File (take n data)) t, Some OSError)"
  using assms by (auto simp: write_upload_def Let_def split: option.splits entry.splits)

lemma write_upload_done:
  "write_upload t s data fault = (t', None) \<Longrightarrow> lookup t' (components s) = Some (File data)"
  by (auto simp: write_upload_def Let_def lookup_def update_conv'
      split: if_splits option.splits entry.splits io_fault.splits)

text \<open>
  The write is in place. On the fresh server, an upload by \<open>alice\<close> whose copy fails
  once two of its four bytes are written raises, and leaves a file of those two bytes
  under the final name, which \<open>get_user_images\<close> then returns.
\<close>

theorem partial_file_visible_after_failed_copy:
  "result (api_upload_image server0 clock0 clock1 (Copy_fault 2) ''alice'' ''2024-01-02T03:04:05''
             screenshot) = Inl (Unhandled OSError) \<and>
   get_user_images
     (storage (state (api_upload_image server0 clock0 clock1 (Copy_fault 2) ''alice''
                        ''2024-01-02T03:04:05'' screenshot))) ''alice''
     = Inr [''uploads/alice/20240102_030405000006_screenshot.png''] \<and>
   lookup
     (storage (state (api_upload_image server0 clock0 clock1 (Copy_fault 2) ''alice''
                        ''2024-01-02T03:04:05'' screenshot)))
     (components ''uploads/alice/20240102_030405000006_screenshot.png'')
     = Some (File [0x89, 0x50]) \<and>
   strict_prefix [0x89, 0x50] (file_data screenshot)"
  by (simp add: api_upload_image_def get_user_images_def image_paths_in_def sorted_reverse_def
      image_extensions_def ALL_USERS_OPTION_def
      path_eval fs_eval clock_eval example_defs Let_def)

text \<open>
  C2, as the code has it. When the copy of the uploaded bytes fails after \<open>n\<close> bytes,
  \<open>api_upload_image\<close> lets the error of the operating system through and leaves
  \<open>last_update_time\<close> as it was; the file it opened under the final name stays, and
  holds the first \<open>n\<close> bytes of the upload. There is no temporary name and no rename.
  The two hypotheses on \<open>lookup\<close> say that \<open>open\<close> succeeds: the directory is
  there and the name is not that of a directory.
\<close>

theorem failed_copy_leaves_prefix_in_place:
  assumes "content_type img = Some ct" "startswith ct ''image/''"
    and "makedirs (storage s) (join UPLOAD_DIR username) (Copy_fault n) = Inr t1"
    and "lookup t1 (components (join (join UPLOAD_DIR username)
                                  (strftime now1 @ ''_'' @ filename img))) \<noteq> Some Dir"
    and "lookup t1 (butlast (components (join (join UPLOAD_DIR username)
                                  (strftime now1 @ ''_'' @ filename img)))) = Some Dir"
  shows "result (api_upload_image s now1 now2 (Copy_fault n) username timestamp img)
           = Inl (Unhandled OSError) \<and>
         last_update_time (state (api_upload_image s now1 now2 (Copy_fault n) username
                                    timestamp img)) = last_update_time s \<and>
         lookup (storage (state (api_upload_image s now1 now2 (Copy_fault n) username
                                   timestamp img)))
           (components (join (join UPLOAD_DIR username) (strftime now1 @ ''_'' @ filename img)))
           = Some (File (take n (file_data img)))"
proof -
  let ?p = "join (join UPLOAD_DIR username) (strftime now1 @ ''_'' @ filename img)"
  have ne: "components ?p \<noteq> []"
    using assms(4) by (auto simp: lookup_def)
  have w: "write_upload t1 ?p (file_data img) (Copy_fault n) =
             (AList.update (components ?p) (File (take n (file_data img))) t1, Some OSError)"
    using assms(4,5) by (rule write_upload_copy_fault)
  have "api_upload_image s now1 now2 (Copy_fault n) username timestamp img =
          \<lparr>state = s\<lparr>storage := AList.update (components ?p) (File (take n (file_data img))) t1\<rparr>,
           file_closed = True, result = Inl (Unhandled OSError)\<rparr>"
    using assms(1,2,3) w by (rule upload_write_raises)
  then show ?thesis
    using ne by (simp add: lookup_update_same)
qed

theorem failed_copy_leaves_prefix_in_place_witness:
  "content_type screenshot = Some ''image/png'' \<and> startswith ''image/png'' ''image/'' \<and>
   makedirs (storage server0) (join UPLOAD_DIR ''alice'') (Copy_fault 2)
     = Inr [([''uploads''], Dir), ([''uploads'', ''alice''], Dir)] \<and>
   lookup [([''uploads''], Dir), ([''uploads'', ''alice''], Dir)]
     (components (join (join UPLOAD_DIR ''alice'') (strftime clock0 @ ''_'' @ filename screenshot)))
     = None \<and>
   lookup [([''uploads''], Dir), ([''uploads'', ''alice''], Dir)]
     (butlast (components (join (join UPLOAD_DIR ''alice'')
                             (strftime clock0 @ ''_'' @ filename screenshot))))
     = Some Dir \<and>
   result (api_upload_image server0 clock0 clock1 (Copy_fault 2) ''alice'' ''2024-01-02T03:04:05''
             screenshot) = Inl (Unhandled OSError) \<and>
   last_update_time (state (api_upload_image server0 clock0 clock1 (Copy_fault 2) ''alice''
             ''2024-01-02T03:04:05'' screenshot)) = last_update_time server0 \<and>
   lookup (storage (state (api_upload_image server0 clock0 clock1 (Copy_fault 2) ''alice''
             ''2024-01-02T03:04:05'' screenshot)))
     (components (join (join UPLOAD_DIR ''alice'') (strftime clock0 @ ''_'' @ filename screenshot)))
     = Some (File (take 2 (file_data screenshot)))"
proof -
  have a: "content_type screenshot = Some ''image/png''"
    by (simp add: example_defs)
  have a': "startswith ''image/png'' ''image/''"
    by (simp add: path_eval)
  have b: "makedirs (storage server0) (join UPLOAD_DIR ''alice'') (Copy_fault 2)
     = Inr [([''uploads''], Dir), ([''uploads'', ''alice''], Dir)]"
    by (simp add: path_eval fs_eval example_defs)
  have c: "lookup [([''uploads''], Dir), ([''uploads'', ''alice''], Dir)]
     (components (join (join UPLOAD_DIR ''alice'') (strftime clock0 @ ''_'' @ filename screenshot)))
     = None"
    by (simp add: path_eval fs_eval clock_eval example_defs)
  have d: "lookup [([''uploads''], Dir), ([''uploads'', ''alice''], Dir)]
     (butlast (components (join (join UPLOAD_DIR ''alice'')
                             (strftime clock0 @ ''_'' @ filename screenshot))))
     = Some Dir"
    by (simp add: path_eval fs_eval clock_eval example_defs)
  have c': "lookup [([''uploads''], Dir), ([''uploads'', ''alice''], Dir)]
     (components (join (join UPLOAD_DIR ''alice'') (strftime clock0 @ ''_'' @ filename screenshot)))
     \<noteq> Some Dir"
    using c by simp
  from failed_copy_leaves_prefix_in_place [OF a a' b c' d, of clock1 "''2024-01-02T03:04:05''"]
       a a' b c d
  show ?thesis by simp
qed


section \<open>Where an upload is stored\<close>

text \<open>
  The name under which an upload is stored starts with a digit and the time stamp has
  neither a separator nor a dot. For a user name that is a plain name and a file name
  without separator, the path of the stored file is \<open>uploads/<user>/<stamp>_<name>\<close>.
\<close>

lemma split_sep_no_sep: "CHR ''/'' \<notin> set a \<Longrightarrow> split_sep a = [a]"
  by (induction a) auto

lemma split_sep_append:
  "CHR ''/'' \<notin> set a \<Longrightarrow> split_sep (a @ CHR ''/'' # b) = a # split_sep b"
  by (induction a) auto

lemma components_plain: "CHR ''/'' \<notin> set a \<Longrightarrow> a \<noteq> [] \<Longrightarrow> components a = [a]"
  by (simp add: components_def split_sep_no_sep)

lemma components_append:
  "CHR ''/'' \<notin> set a \<Longrightarrow> a \<noteq> [] \<Longrightarrow> components (a @ CHR ''/'' # b) = a # components b"
  by (simp add: components_def split_sep_append)

lemma digit_in: "digit n \<in> set ''0123456789''"
proof -
  have "n mod 10 < length ''0123456789''" by simp
  then show ?thesis unfolding digit_def by (rule nth_mem)
qed

lemma digit_not_sep: "digit n \<noteq> CHR ''/''" and digit_not_dot: "digit n \<noteq> CHR ''.''"
  using digit_in [of n] by auto

lemma strftime_chars: "set (strftime d) \<subseteq> set ''0123456789_''"
  using digit_in by (auto simp: strftime_def digits2_def digits4_def digits6_def)

lemma strftime_no_sep: "CHR ''/'' \<notin> set (strftime d)"
  using strftime_chars [of d] by auto

lemma strftime_no_dot: "CHR ''.'' \<notin> set (strftime d)"
  using strftime_chars [of d] by auto

lemma strftime_hd: "\<exists>c cs. strftime d = c # cs \<and> c \<noteq> CHR ''/'' \<and> c \<noteq> CHR ''.''"
  by (simp add: strftime_def digits4_def digit_not_sep digit_not_dot)

lemma join_upload_dir:
  "\<not> startswith u ''/'' \<Longrightarrow> join UPLOAD_DIR u = ''uploads/'' @ u"
  by (simp add: join_def UPLOAD_DIR_def endswith_def suffix_to_prefix)

lemma startswith_sep: "startswith u ''/'' \<longleftrightarrow> (\<exists>cs. u = CHR ''/'' # cs)"
  by (cases u) (auto simp: startswith_def)

lemma endswith_sep: "endswith a ''/'' \<longleftrightarrow> (a \<noteq> [] \<and> last a = CHR ''/'')"
  by (cases a rule: rev_cases) (auto simp: endswith_def suffix_def)

lemma stored_path_plain:
  assumes "username \<noteq> []" "CHR ''/'' \<notin> set username" "CHR ''/'' \<notin> set name"
  shows "join (join UPLOAD_DIR username) (strftime d @ ''_'' @ name)
           = ''uploads/'' @ username @ ''/'' @ strftime d @ ''_'' @ name"
    and "components (join (join UPLOAD_DIR username) (strftime d @ ''_'' @ name))
           = [''uploads'', username, strftime d @ ''_'' @ name]"
    and "components (join UPLOAD_DIR username) = [''uploads'', username]"
proof -
  have u: "\<not> startswith username ''/''"
    using assms(1,2) by (auto simp: startswith_sep)
  obtain c cs where c: "strftime d = c # cs" "c \<noteq> CHR ''/''"
    using strftime_hd by blast
  have n: "\<not> startswith (strftime d @ ''_'' @ name) ''/''"
    using c by (simp add: startswith_def)
  have l: "last (''uploads/'' @ username) \<noteq> CHR ''/''"
    using assms(1,2) by (metis last_appendR last_in_set)
  have e: "\<not> endswith (''uploads/'' @ username) ''/''"
    using l by (simp add: endswith_sep)
  show j: "join (join UPLOAD_DIR username) (strftime d @ ''_'' @ name)
           = ''uploads/'' @ username @ ''/'' @ strftime d @ ''_'' @ name"
    using u n e by (simp add: join_upload_dir) (simp add: join_def)
  have s: "CHR ''/'' \<notin> set (strftime d @ ''_'' @ name)"
    using assms(3) strftime_no_sep by simp
  have "components (''uploads'' @ CHR ''/'' # username @ CHR ''/'' # strftime d @ ''_'' @ name)
          = [''uploads'', username, strftime d @ ''_'' @ name]"
    using assms(1,2) s c by (simp add: components_append components_plain del: append.simps)
  then show "components (join (join UPLOAD_DIR username) (strftime d @ ''_'' @ name))
           = [''uploads'', username, strftime d @ ''_'' @ name]"
    using j by simp
  have "components (''uploads'' @ CHR ''/'' # username) = [''uploads'', username]"
    using assms(1,2) by (simp add: components_append components_plain del: append.simps)
  then show "components (join UPLOAD_DIR username) = [''uploads'', username]"
    using u by (simp add: join_upload_dir)
qed


section \<open>Ingest: the check on the content type, and what follows it\<close>

lemma upload_bad_type:
  "content_type img = Some ct \<Longrightarrow>
   (\<exists>d. result (api_upload_image s now1 now2 fault username timestamp img)
          = Inl (HTTPException 400 d))
     \<longleftrightarrow> \<not> startswith ct ''image/''"
  by (simp add: api_upload_image_def Let_def split: sum.splits prod.splits option.splits)

text \<open>
  A part that declares no content type is answered neither with 400 nor with 201: the
  test itself raises.
\<close>

lemma upload_without_content_type:
  "content_type img = None \<Longrightarrow>
   api_upload_image s now1 now2 fault username timestamp img =
     \<lparr>state = s, file_closed = False, result = Inl AttributeError\<rparr>"
  by (simp add: api_upload_image_def)

lemma upload_makedirs_raises:
  assumes "content_type img = Some ct" "startswith ct ''image/''"
    and "makedirs (storage s) (join UPLOAD_DIR username) fault = Inl e"
  shows "api_upload_image s now1 now2 fault username timestamp img =
     \<lparr>state = s, file_closed = False, result = Inl (Unhandled e)\<rparr>"
  unfolding api_upload_image_def Let_def using assms by simp

lemma upload_completes:
  assumes "content_type img = Some ct" "startswith ct ''image/''"
    and "makedirs (storage s) (join UPLOAD_DIR username) fault = Inr t1"
    and "write_upload t1 (join (join UPLOAD_DIR username) (strftime now1 @ ''_'' @ filename img))
        (file_data img) fault = (t2, None)"
  shows "api_upload_image s now1 now2 fault username timestamp img =
     \<lparr>state = mark_updated (s\<lparr>storage := t2\<rparr>) now2, file_closed = True,
      result = Inr \<lparr>status_code = 201, message = message_uploaded,
                    server_path = join (join UPLOAD_DIR username)
                                    (strftime now1 @ ''_'' @ filename img)\<rparr>\<rparr>"
  unfolding api_upload_image_def Let_def using assms by simp

text \<open>
  An upload declared as an image need not end with status 201. On the fresh server the
  upload of \<open>screenshot.png\<close> by \<open>alice\<close> is stored and answered with 201 and its
  path. A second upload, declared \<open>image/png\<close> as well, whose user name is that path
  below \<open>uploads\<close>, makes \<open>os.makedirs\<close> raise \<open>FileExistsError\<close>, which leaves
  the function as it is. So does the error of an \<open>open\<close> that the operating system
  refuses.
\<close>

theorem upload_of_image_type_can_fail:
  "content_type screenshot = Some ''image/png'' \<and> startswith ''image/png'' ''image/'' \<and>
   result (api_upload_image server0 clock0 clock1 No_fault ''alice'' ''2024-01-02T03:04:05''
             screenshot)
     = Inr \<lparr>status_code = 201, message = message_uploaded,
            server_path = ''uploads/alice/20240102_030405000006_screenshot.png''\<rparr> \<and>
   result (api_upload_image
             (state (api_upload_image server0 clock0 clock1 No_fault ''alice''
                       ''2024-01-02T03:04:05'' screenshot))
             clock1 clock1 No_fault ''alice/20240102_030405000006_screenshot.png''
             ''2024-01-02T03:04:06'' screenshot)
     = Inl (Unhandled FileExistsError) \<and>
   result (api_upload_image server0 clock0 clock1 Open_fault ''alice'' ''2024-01-02T03:04:05''
             screenshot)
     = Inl (Unhandled OSError)"
  by (simp add: api_upload_image_def mark_updated_def
      path_eval fs_eval clock_eval example_defs Let_def)

text \<open>
  C4, as the code has it. For an upload whose image part declares a content type,
  \<open>api_upload_image\<close> raises the \<open>HTTPException\<close> with status 400 exactly when
  that type does not start with \<open>image/\<close>. Otherwise it creates the directory of the
  user and writes the file. When \<open>os.makedirs\<close> raises, or when the write raises,
  that exception leaves the function and there is no response. When neither raises, the
  response has status 201 and carries the message and, as \<open>server_path\<close>, the path
  \<open>join(join(UPLOAD_DIR, username), <stamp>_<filename>)\<close>, and that path holds the
  uploaded bytes. For a plain user name and a file name without separator this is the
  entry \<open><stamp>_<filename>\<close> of the directory \<open>uploads/<username>\<close>.
\<close>

theorem upload_rejects_or_stores:
  "(content_type img = Some ct \<longrightarrow>
      ((\<exists>d. result (api_upload_image s now1 now2 fault username timestamp img)
             = Inl (HTTPException 400 d))
        \<longleftrightarrow> \<not> startswith ct ''image/''))
   \<and> (content_type img = Some ct \<longrightarrow> startswith ct ''image/'' \<longrightarrow>
      makedirs (storage s) (join UPLOAD_DIR username) fault = Inl e \<longrightarrow>
        result (api_upload_image s now1 now2 fault username timestamp img) = Inl (Unhandled e))
   \<and> (content_type img = Some ct \<longrightarrow> startswith ct ''image/'' \<longrightarrow>
      makedirs (storage s) (join UPLOAD_DIR username) fault = Inr t1 \<longrightarrow>
      write_upload t1 (join (join UPLOAD_DIR username) (strftime now1 @ ''_'' @ filename img))
        (file_data img) fault = (t2, Some e) \<longrightarrow>
        result (api_upload_image s now1 now2 fault username timestamp img) = Inl (Unhandled e))
   \<and> (content_type img = Some ct \<longrightarrow> startswith ct ''image/'' \<longrightarrow>
      makedirs (storage s) (join UPLOAD_DIR username) fault = Inr t1 \<longrightarrow>
      write_upload t1 (join (join UPLOAD_DIR username) (strftime now1 @ ''_'' @ filename img))
        (file_data img) fault = (t2, None) \<longrightarrow>
        result (api_upload_image s now1 now2 fault username timestamp img)
          = Inr \<lparr>status_code = 201, message = message_uploaded,
                 server_path = join (join UPLOAD_DIR username)
                                 (strftime now1 @ ''_'' @ filename img)\<rparr>
        \<and> lookup (storage (state (api_upload_image s now1 now2 fault username timestamp img)))
             (components (join (join UPLOAD_DIR username)
                            (strftime now1 @ ''_'' @ filename img)))
            = Some (File (file_data img)))
   \<and> (username \<noteq> [] \<longrightarrow> CHR ''/'' \<notin> set username \<longrightarrow> CHR ''/'' \<notin> set (filename img) \<longrightarrow>
        components (join (join UPLOAD_DIR username) (strftime now1 @ ''_'' @ filename img))
          = [UPLOAD_DIR, username, strftime now1 @ ''_'' @ filename img])"
proof (intro conjI impI)
  assume "content_type img = Some ct"
  then show "(\<exists>d. result (api_upload_image s now1 now2 fault username timestamp img)
           = Inl (HTTPException 400 d))
      \<longleftrightarrow> \<not> startswith ct ''image/''"
    by (rule upload_bad_type)
next
  assume "content_type img = Some ct" "startswith ct ''image/''"
    "makedirs (storage s) (join UPLOAD_DIR username) fault = Inl e"
  then show "result (api_upload_image s now1 now2 fault username timestamp img)
               = Inl (Unhandled e)"
    by (simp add: upload_makedirs_raises)
next
  assume "content_type img = Some ct" "startswith ct ''image/''"
    "makedirs (storage s) (join UPLOAD_DIR username) fault = Inr t1"
    "write_upload t1 (join (join UPLOAD_DIR username)
       (strftime now1 @ ''_'' @ filename img)) (file_data img) fault = (t2, Some e)"
  then show "result (api_upload_image s now1 now2 fault username timestamp img)
               = Inl (Unhandled e)"
    by (simp add: upload_write_raises)
next
  assume a: "content_type img = Some ct" "startswith ct ''image/''"
    and b: "makedirs (storage s) (join UPLOAD_DIR username) fault = Inr t1"
    and c: "write_upload t1 (join (join UPLOAD_DIR username)
              (strftime now1 @ ''_'' @ filename img)) (file_data img) fault = (t2, None)"
  note out = upload_completes [OF a b c, of now2 timestamp]
  show "result (api_upload_image s now1 now2 fault username timestamp img)
          = Inr \<lparr>status_code = 201, message = message_uploaded,
                 server_path = join (join UPLOAD_DIR username)
                                 (strftime now1 @ ''_'' @ filename img)\<rparr>"
    by (simp add: out)
  show "lookup (storage (state (api_upload_image s now1 now2 fault username timestamp img)))
             (components (join (join UPLOAD_DIR username)
                            (strftime now1 @ ''_'' @ filename img)))
            = Some (File (file_data img))"
    using write_upload_done [OF c] by (simp add: out mark_updated_def)
next
  assume "username \<noteq> []" "CHR ''/'' \<notin> set username" "CHR ''/'' \<notin> set (filename img)"
  from stored_path_plain(2) [OF this, of now1]
  show "components (join (join UPLOAD_DIR username) (strftime now1 @ ''_'' @ filename img))
          = [UPLOAD_DIR, username, strftime now1 @ ''_'' @ filename img]"
    by (simp add: UPLOAD_DIR_def)
qed

theorem upload_rejects_or_stores_witness:
  "content_type text_note = Some ''text/plain'' \<and> \<not> startswith ''text/plain'' ''image/'' \<and>
   (\<exists>d. result (api_upload_image server0 clock0 clock1 No_fault ''alice''
                  ''2024-01-02T03:04:05'' text_note) = Inl (HTTPException 400 d)) \<and>
   content_type screenshot = Some ''image/png'' \<and> startswith ''image/png'' ''image/'' \<and>
   makedirs (storage server1) (join UPLOAD_DIR ''alice/20240102_030405000006_screenshot.png'')
       No_fault = Inl FileExistsError \<and>
   result (api_upload_image server1 clock1 clock1 No_fault
             ''alice/20240102_030405000006_screenshot.png'' ''2024-01-02T03:04:06'' screenshot)
     = Inl (Unhandled FileExistsError) \<and>
   makedirs (storage server0) (join UPLOAD_DIR ''alice'') Open_fault
     = Inr [([''uploads''], Dir), ([''uploads'', ''alice''], Dir)] \<and>
   write_upload [([''uploads''], Dir), ([''uploads'', ''alice''], Dir)]
       (join (join UPLOAD_DIR ''alice'') (strftime clock0 @ ''_'' @ filename screenshot))
       (file_data screenshot) Open_fault
     = ([([''uploads''], Dir), ([''uploads'', ''alice''], Dir)], Some OSError) \<and>
   result (api_upload_image server0 clock0 clock1 Open_fault ''alice'' ''2024-01-02T03:04:05''
             screenshot) = Inl (Unhandled OSError) \<and>
   makedirs (storage server0) (join UPLOAD_DIR ''alice'') No_fault
     = Inr [([''uploads''], Dir), ([''uploads'', ''alice''], Dir)] \<and>
   write_upload [([''uploads''], Dir), ([''uploads'', ''alice''], Dir)]
       (join (join UPLOAD_DIR ''alice'') (strftime clock0 @ ''_'' @ filename screenshot))
       (file_data screenshot) No_fault
     = ([([''uploads''], Dir), ([''uploads'', ''alice''], Dir),
         ([''uploads'', ''alice'', ''20240102_030405000006_screenshot.png''],
          File [0x89, 0x50, 0x4E, 0x47])], None) \<and>
   ''alice'' \<noteq> [] \<and> CHR ''/'' \<notin> set ''alice'' \<and> CHR ''/'' \<notin> set (filename screenshot) \<and>
   result (api_upload_image server0 clock0 clock1 No_fault ''alice'' ''2024-01-02T03:04:05''
             screenshot)
     = Inr \<lparr>status_code = 201, message = message_uploaded,
            server_path = ''uploads/alice/20240102_030405000006_screenshot.png''\<rparr> \<and>
   lookup (storage (state (api_upload_image server0 clock0 clock1 No_fault ''alice''
                             ''2024-01-02T03:04:05'' screenshot)))
     [''uploads'', ''alice'', ''20240102_030405000006_screenshot.png'']
     = Some (File [0x89, 0x50, 0x4E, 0x47]) \<and>
   (\<nexists>d. result (api_upload_image server0 clock0 clock1 No_fault ''alice''
                   ''2024-01-02T03:04:05'' screenshot) = Inl (HTTPException 400 d))"
proof -
  have n: "content_type text_note = Some ''text/plain''"
    by (simp add: text_note_def)
  have n': "\<not> startswith ''text/plain'' ''image/''"
    by (simp add: path_eval)
  have a: "content_type screenshot = Some ''image/png''"
    by (simp add: example_defs)
  have a': "startswith ''image/png'' ''image/''"
    by (simp add: path_eval)
  have m: "makedirs (storage server1)
             (join UPLOAD_DIR ''alice/20240102_030405000006_screenshot.png'') No_fault
           = Inl FileExistsError"
    by (simp add: path_eval fs_eval example_defs)
  have bo: "makedirs (storage server0) (join UPLOAD_DIR ''alice'') Open_fault
     = Inr [([''uploads''], Dir), ([''uploads'', ''alice''], Dir)]"
    by (simp add: path_eval fs_eval example_defs)
  have co: "write_upload [([''uploads''], Dir), ([''uploads'', ''alice''], Dir)]
       (join (join UPLOAD_DIR ''alice'') (strftime clock0 @ ''_'' @ filename screenshot))
       (file_data screenshot) Open_fault
     = ([([''uploads''], Dir), ([''uploads'', ''alice''], Dir)], Some OSError)"
    by (simp add: path_eval fs_eval clock_eval example_defs)
  have b: "makedirs (storage server0) (join UPLOAD_DIR ''alice'') No_fault
     = Inr [([''uploads''], Dir), ([''uploads'', ''alice''], Dir)]"
    by (simp add: path_eval fs_eval example_defs)
  have c: "write_upload [([''uploads''], Dir), ([''uploads'', ''alice''], Dir)]
       (join (join UPLOAD_DIR ''alice'') (strftime clock0 @ ''_'' @ filename screenshot))
       (file_data screenshot) No_fault
     = ([([''uploads''], Dir), ([''uploads'', ''alice''], Dir),
         ([''uploads'', ''alice'', ''20240102_030405000006_screenshot.png''],
          File [0x89, 0x50, 0x4E, 0x47])], None)"
    by (simp add: path_eval fs_eval clock_eval example_defs)
  have d: "''alice'' \<noteq> [] \<and> CHR ''/'' \<notin> set ''alice'' \<and> CHR ''/'' \<notin> set (filename screenshot)"
    by (simp add: example_defs)
  have e: "join (join ''uploads'' ''alice'') ''20240102_030405000006_screenshot.png''
             = ''uploads/alice/20240102_030405000006_screenshot.png''"
    by (simp add: path_eval)
  have f: "strftime clock0 @ ''_'' @ filename screenshot
             = ''20240102_030405000006_screenshot.png''"
    by (simp add: clock_eval example_defs)
  have g: "file_data screenshot = [0x89, 0x50, 0x4E, 0x47]"
    by (simp add: example_defs)
  from upload_rejects_or_stores
         [where img = text_note and ct = "''text/plain''" and s = server0 and ?now1.0 = clock0
            and ?now2.0 = clock1 and fault = No_fault and username = "''alice''"
            and timestamp = "''2024-01-02T03:04:05''"] n n'
  have 1: "\<exists>d. result (api_upload_image server0 clock0 clock1 No_fault ''alice''
                  ''2024-01-02T03:04:05'' text_note) = Inl (HTTPException 400 d)"
    by blast
  from upload_rejects_or_stores
         [where img = screenshot and ct = "''image/png''" and s = server1 and ?now1.0 = clock1
            and ?now2.0 = clock1 and fault = No_fault
            and username = "''alice/20240102_030405000006_screenshot.png''"
            and timestamp = "''2024-01-02T03:04:06''" and e = FileExistsError] a a' m
  have 2: "result (api_upload_image server1 clock1 clock1 No_fault
             ''alice/20240102_030405000006_screenshot.png'' ''2024-01-02T03:04:06'' screenshot)
     = Inl (Unhandled FileExistsError)"
    by blast
  from upload_rejects_or_stores
         [where img = screenshot and ct = "''image/png''" and s = server0 and ?now1.0 = clock0
            and ?now2.0 = clock1 and fault = Open_fault and username = "''alice''"
            and timestamp = "''2024-01-02T03:04:05''" and e = OSError
            and ?t1.0 = "[([''uploads''], Dir), ([''uploads'', ''alice''], Dir)]"
            and ?t2.0 = "[([''uploads''], Dir), ([''uploads'', ''alice''], Dir)]"] a a' bo co
  have 3: "result (api_upload_image server0 clock0 clock1 Open_fault ''alice''
             ''2024-01-02T03:04:05'' screenshot) = Inl (Unhandled OSError)"
    by blast
  from upload_rejects_or_stores
         [where img = screenshot and ct = "''image/png''" and s = server0 and ?now1.0 = clock0
            and ?now2.0 = clock1 and fault = No_fault and username = "''alice''"
            and timestamp = "''2024-01-02T03:04:05''"
            and ?t1.0 = "[([''uploads''], Dir), ([''uploads'', ''alice''], Dir)]"
            and ?t2.0 = "[([''uploads''], Dir), ([''uploads'', ''alice''], Dir),
               ([''uploads'', ''alice'', ''20240102_030405000006_screenshot.png''],
                File [0x89, 0x50, 0x4E, 0x47])]"]
       a a' b c d
  have 4: "result (api_upload_image server0 clock0 clock1 No_fault ''alice''
             ''2024-01-02T03:04:05'' screenshot)
     = Inr \<lparr>status_code = 201, message = message_uploaded,
            server_path = ''uploads/alice/20240102_030405000006_screenshot.png''\<rparr> \<and>
   lookup (storage (state (api_upload_image server0 clock0 clock1 No_fault ''alice''
                             ''2024-01-02T03:04:05'' screenshot)))
     [''uploads'', ''alice'', ''20240102_030405000006_screenshot.png'']
     = Some (File [0x89, 0x50, 0x4E, 0x47]) \<and>
   (\<nexists>d. result (api_upload_image server0 clock0 clock1 No_fault ''alice''
                   ''2024-01-02T03:04:05'' screenshot) = Inl (HTTPException 400 d))"
    unfolding f g UPLOAD_DIR_def by (auto simp: e)
  from n n' a a' m bo co b c d 1 2 3 4 show ?thesis
    by blast
qed


section \<open>The time of the last update\<close>

lemma not_later_self: "\<not> later a a"
  by (simp add: later_def)

lemma check_for_updates_skip:
  "check_for_updates s u v = Inr (Skip v) \<longleftrightarrow> \<not> later (last_update_time s) v"
  by (simp add: check_for_updates_def split: sum.splits)

lemma delete_refused:
  "username = [] \<or> username = ALL_USERS_OPTION \<or> \<not> isdir (storage s) (join UPLOAD_DIR username)
   \<Longrightarrow> delete_user_images s now outcome username = (s, False)"
  by (auto simp: delete_user_images_def Let_def)

lemma delete_done:
  assumes "username \<noteq> []" "username \<noteq> ALL_USERS_OPTION"
    and "isdir (storage s) (join UPLOAD_DIR username)"
  shows "delete_user_images s now Rm_ok username =
           (\<lparr>storage = filter (\<lambda>(q, e). \<not> prefix (components (join UPLOAD_DIR username)) q)
                         (storage s),
             last_update_time = now\<rparr>, True)"
  using assms by (simp add: delete_user_images_def Let_def rmtree_def mark_updated_def)

lemma delete_failed:
  assumes "username \<noteq> []" "username \<noteq> ALL_USERS_OPTION"
    and "isdir (storage s) (join UPLOAD_DIR username)"
  shows "snd (delete_user_images s now (Rm_fails gone) username) = False"
    and "last_update_time (fst (delete_user_images s now (Rm_fails gone) username))
           = last_update_time s"
  using assms by (simp_all add: delete_user_images_def Let_def rmtree_def)

lemma delete_version:
  "last_update_time (fst (delete_user_images s now outcome username)) =
     (if snd (delete_user_images s now outcome username) then now else last_update_time s)"
  by (simp add: delete_user_images_def Let_def rmtree_def mark_updated_def
      split: rm_outcome.splits)

lemma server1_reached:
  "state (api_upload_image server0 clock0 clock1 No_fault ''alice'' ''2024-01-02T03:04:05''
            screenshot) = server1"
  by (simp add: api_upload_image_def mark_updated_def
      path_eval fs_eval clock_eval example_defs Let_def)

text \<open>
  The time of the last update is a reading of the wall clock, and a later reading need
  not be a greater one. On the fresh server, whose time of last update is \<open>clock0\<close>,
  an upload that completes while the clock still reads \<open>clock0\<close> leaves that time as
  it was, and the viewer that holds \<open>clock0\<close> is told to skip. After a deletion that
  completes while the clock reads less than the time the viewer holds (the clock was set
  back), the viewer is told to skip as well.
\<close>

theorem version_not_strictly_greater:
  "result (api_upload_image server0 clock0 clock0 No_fault ''alice'' ''2024-01-02T03:04:05''
             screenshot)
     = Inr \<lparr>status_code = 201, message = message_uploaded,
            server_path = ''uploads/alice/20240102_030405000006_screenshot.png''\<rparr> \<and>
   \<not> later (last_update_time (state (api_upload_image server0 clock0 clock0 No_fault ''alice''
                                        ''2024-01-02T03:04:05'' screenshot)))
            (last_update_time server0) \<and>
   check_for_updates (state (api_upload_image server0 clock0 clock0 No_fault ''alice''
                               ''2024-01-02T03:04:05'' screenshot))
       ''alice'' (last_update_time server0)
     = Inr (Skip (last_update_time server0)) \<and>
   snd (delete_user_images server1 clock0 Rm_ok ''alice'') \<and>
   \<not> later (last_update_time (fst (delete_user_images server1 clock0 Rm_ok ''alice'')))
            (last_update_time server1) \<and>
   check_for_updates (fst (delete_user_images server1 clock0 Rm_ok ''alice''))
       ''alice'' (last_update_time server1)
     = Inr (Skip (last_update_time server1))"
  by (simp add: api_upload_image_def delete_user_images_def check_for_updates_def
      ALL_USERS_OPTION_def mark_updated_def
      path_eval fs_eval clock_eval example_defs Let_def)


text \<open>
  C1, as the code has it. An upload that returns its response, and a deletion that
  returns true, set \<open>last_update_time\<close> to the reading of the clock taken in
  \<open>mark_updated\<close>. A viewer that holds \<open>v\<close> is told to skip by the next
  \<open>check_for_updates\<close> exactly when that reading is not later than \<open>v\<close>; so it is
  given the change when the reading is later than \<open>v\<close>. With no mutation since the
  viewer took its value, it is told to skip.
\<close>

theorem version_is_clock_reading:
  "(result (api_upload_image s now1 now2 fault username timestamp img) = Inr r \<longrightarrow>
      last_update_time (state (api_upload_image s now1 now2 fault username timestamp img)) = now2
      \<and> (check_for_updates (state (api_upload_image s now1 now2 fault username timestamp img))
            u v = Inr (Skip v) \<longleftrightarrow> \<not> later now2 v))
   \<and> (snd (delete_user_images s now outcome username) \<longrightarrow>
      last_update_time (fst (delete_user_images s now outcome username)) = now
      \<and> (check_for_updates (fst (delete_user_images s now outcome username)) u v
            = Inr (Skip v) \<longleftrightarrow> \<not> later now v))
   \<and> check_for_updates s u (last_update_time s) = Inr (Skip (last_update_time s))"
  by (simp add: check_for_updates_skip upload_version delete_version not_later_self)


theorem version_is_clock_reading_witness:
  "result (api_upload_image server1 clock1 clock1 No_fault ''alice'' ''2024-01-02T03:04:06''
             screenshot)
     = Inr \<lparr>status_code = 201, message = message_uploaded,
            server_path = ''uploads/alice/20240102_030405000007_screenshot.png''\<rparr> \<and>
   snd (delete_user_images server1 clock1 Rm_ok ''alice'') \<and>
   later clock1 clock0 \<and>
   last_update_time (state (api_upload_image server1 clock1 clock1 No_fault ''alice''
                              ''2024-01-02T03:04:06'' screenshot)) = clock1 \<and>
   check_for_updates (state (api_upload_image server1 clock1 clock1 No_fault ''alice''
                               ''2024-01-02T03:04:06'' screenshot)) ''alice'' clock0
     \<noteq> Inr (Skip clock0) \<and>
   last_update_time (fst (delete_user_images server1 clock1 Rm_ok ''alice'')) = clock1 \<and>
   check_for_updates (fst (delete_user_images server1 clock1 Rm_ok ''alice'')) ''alice'' clock0
     \<noteq> Inr (Skip clock0) \<and>
   check_for_updates server1 ''alice'' (last_update_time server1)
     = Inr (Skip (last_update_time server1))"
proof -
  have a: "result (api_upload_image server1 clock1 clock1 No_fault ''alice''
                     ''2024-01-02T03:04:06'' screenshot)
     = Inr \<lparr>status_code = 201, message = message_uploaded,
            server_path = ''uploads/alice/20240102_030405000007_screenshot.png''\<rparr>"
    by (simp add: api_upload_image_def mark_updated_def
        path_eval fs_eval clock_eval example_defs Let_def)
  have b: "snd (delete_user_images server1 clock1 Rm_ok ''alice'')"
    by (simp add: delete_user_images_def ALL_USERS_OPTION_def mark_updated_def
        path_eval fs_eval example_defs Let_def)
  have c: "later clock1 clock0"
    by (simp add: clock_eval example_defs)
  from version_is_clock_reading
         [of server1 clock1 clock1 No_fault "''alice''" "''2024-01-02T03:04:06''" screenshot
             "\<lparr>status_code = 201, message = message_uploaded,
               server_path = ''uploads/alice/20240102_030405000007_screenshot.png''\<rparr>"
             "''alice''" clock0 clock1 Rm_ok]
       a b c
  show ?thesis by simp
qed

section \<open>Deleting the images of a user\<close>

lemma sorted_reverse_Nil: "sorted_reverse [] = []"
  by (simp add: sorted_reverse_def)

lemma map_of_filter_out: "\<not> P k \<Longrightarrow> map_of (filter (\<lambda>(q, e). P q) t) k = None"
  by (induction t) auto

lemma children_after_rmtree:
  "children (filter (\<lambda>(q, e). \<not> prefix d q) t) d = []"
proof -
  have "\<not> (q \<noteq> [] \<and> butlast q = d \<and> \<not> prefix d q)" for q
    by (metis prefix_def append_butlast_last_id)
  then show ?thesis
    by (auto simp: children_def filter_empty_conv)
qed

lemma no_images_after_rmtree:
  assumes "username \<noteq> []" "username \<noteq> ALL_USERS_OPTION"
  shows "get_user_images
           (filter (\<lambda>(q, e). \<not> prefix (components (join UPLOAD_DIR username)) q) t) username
         = Inr []"
proof (cases "components (join UPLOAD_DIR username) = []")
  case True
  then show ?thesis
    using assms children_after_rmtree [of "[]" t]
    by (simp add: get_user_images_def Let_def path_exists_def listdir_def lookup_def
        image_paths_in_def sorted_reverse_Nil)
next
  case False
  have "map_of (filter (\<lambda>(q, e). \<not> prefix (components (join UPLOAD_DIR username)) q) t)
          (components (join UPLOAD_DIR username)) = None"
    by (rule map_of_filter_out) simp
  then show ?thesis
    using assms False
    by (simp add: get_user_images_def Let_def path_exists_def lookup_def sorted_reverse_Nil)
qed

text \<open>
  The directory of \<open>alice\<close> exists and holds one image; when \<open>shutil.rmtree\<close>
  raises, here before it has removed anything, \<open>delete_user_images\<close> catches the
  error and returns false.
\<close>

theorem delete_of_existing_user_can_fail:
  "isdir (storage server1) (join UPLOAD_DIR ''alice'') \<and>
   get_user_images (storage server1) ''alice''
     = Inr [''uploads/alice/20240102_030405000006_screenshot.png''] \<and>
   delete_user_images server1 clock1 (Rm_fails []) ''alice'' = (server1, False)"
  by (simp add: delete_user_images_def get_user_images_def image_paths_in_def
      sorted_reverse_def image_extensions_def ALL_USERS_OPTION_def
      path_eval fs_eval example_defs Let_def)

text \<open>
  C5, as the code has it. \<open>delete_user_images\<close> returns false and changes neither
  the file system nor \<open>last_update_time\<close> when the user name is empty, is the entry
  for all users, or names no directory below \<open>uploads\<close>. For a user whose directory
  exists, when \<open>shutil.rmtree\<close> completes the function returns true, the directory
  and all below it are gone while every other entry stays, the user has no image left,
  and \<open>last_update_time\<close> is set, once, to the reading of the clock; when
  \<open>shutil.rmtree\<close> raises, the function returns false, without raising, and
  \<open>last_update_time\<close> is as it was.
\<close>

theorem delete_user_images_outcomes:
  "(username = [] \<or> username = ALL_USERS_OPTION \<or>
      \<not> isdir (storage s) (join UPLOAD_DIR username) \<longrightarrow>
        delete_user_images s now outcome username = (s, False))
   \<and> (username \<noteq> [] \<longrightarrow> username \<noteq> ALL_USERS_OPTION \<longrightarrow>
      isdir (storage s) (join UPLOAD_DIR username) \<longrightarrow>
        (outcome = Rm_ok \<longrightarrow>
           snd (delete_user_images s now outcome username) \<and>
           last_update_time (fst (delete_user_images s now outcome username)) = now \<and>
           storage (fst (delete_user_images s now outcome username))
             = filter (\<lambda>(q, e). \<not> prefix (components (join UPLOAD_DIR username)) q) (storage s) \<and>
           get_user_images (storage (fst (delete_user_images s now outcome username))) username
             = Inr [])
        \<and> (outcome = Rm_fails gone \<longrightarrow>
           \<not> snd (delete_user_images s now outcome username) \<and>
           last_update_time (fst (delete_user_images s now outcome username))
             = last_update_time s))"
proof (intro conjI impI)
  assume "username = [] \<or> username = ALL_USERS_OPTION \<or>
      \<not> isdir (storage s) (join UPLOAD_DIR username)"
  then show "delete_user_images s now outcome username = (s, False)"
    by (rule delete_refused)
next
  assume a: "username \<noteq> []" "username \<noteq> ALL_USERS_OPTION"
    "isdir (storage s) (join UPLOAD_DIR username)" and o: "outcome = Rm_ok"
  note d = delete_done [OF a, of now]
  show "snd (delete_user_images s now outcome username)"
    and "last_update_time (fst (delete_user_images s now outcome username)) = now"
    and "storage (fst (delete_user_images s now outcome username))
           = filter (\<lambda>(q, e). \<not> prefix (components (join UPLOAD_DIR username)) q) (storage s)"
    by (simp_all add: o d)
  show "get_user_images (storage (fst (delete_user_images s now outcome username))) username
          = Inr []"
    using no_images_after_rmtree [OF a(1,2)] by (simp add: o d)
next
  assume a: "username \<noteq> []" "username \<noteq> ALL_USERS_OPTION"
    "isdir (storage s) (join UPLOAD_DIR username)" and o: "outcome = Rm_fails gone"
  show "\<not> snd (delete_user_images s now outcome username)"
    and "last_update_time (fst (delete_user_images s now outcome username)) = last_update_time s"
    using delete_failed [OF a, of now gone] by (simp_all add: o)
qed

theorem delete_user_images_outcomes_witness:
  "\<not> isdir (storage server1) (join UPLOAD_DIR ''bob'') \<and>
   delete_user_images server1 clock0 Rm_ok ''bob'' = (server1, False) \<and>
   delete_user_images server1 clock0 Rm_ok [] = (server1, False) \<and>
   delete_user_images server1 clock0 Rm_ok ALL_USERS_OPTION = (server1, False) \<and>
   ''alice'' \<noteq> [] \<and> ''alice'' \<noteq> ALL_USERS_OPTION \<and>
   isdir (storage server1) (join UPLOAD_DIR ''alice'') \<and>
   snd (delete_user_images server1 clock0 Rm_ok ''alice'') \<and>
   last_update_time (fst (delete_user_images server1 clock0 Rm_ok ''alice'')) = clock0 \<and>
   storage (fst (delete_user_images server1 clock0 Rm_ok ''alice'')) = fresh_storage \<and>
   get_user_images (storage (fst (delete_user_images server1 clock0 Rm_ok ''alice''))) ''alice''
     = Inr [] \<and>
   \<not> snd (delete_user_images server1 clock0 (Rm_fails []) ''alice'') \<and>
   last_update_time (fst (delete_user_images server1 clock0 (Rm_fails []) ''alice''))
     = last_update_time server1"
proof -
  have a: "\<not> isdir (storage server1) (join UPLOAD_DIR ''bob'')"
    by (simp add: path_eval fs_eval example_defs)
  have b: "''alice'' \<noteq> [] \<and> ''alice'' \<noteq> ALL_USERS_OPTION"
    by (simp add: ALL_USERS_OPTION_def)
  have c: "isdir (storage server1) (join UPLOAD_DIR ''alice'')"
    by (simp add: path_eval fs_eval example_defs)
  have d: "filter (\<lambda>(q, e). \<not> prefix (components (join UPLOAD_DIR ''alice'')) q)
             (storage server1) = fresh_storage"
    by (simp add: path_eval example_defs)
  from delete_user_images_outcomes [of "''bob''" server1 clock0 Rm_ok] a
  have 1: "delete_user_images server1 clock0 Rm_ok ''bob'' = (server1, False)"
    by simp
  from delete_user_images_outcomes [of "[]" server1 clock0 Rm_ok]
  have 2: "delete_user_images server1 clock0 Rm_ok [] = (server1, False)"
    by simp
  from delete_user_images_outcomes [of ALL_USERS_OPTION server1 clock0 Rm_ok]
  have 3: "delete_user_images server1 clock0 Rm_ok ALL_USERS_OPTION = (server1, False)"
    by simp
  from delete_user_images_outcomes [of "''alice''" server1 clock0 Rm_ok] b c d
  have 4: "snd (delete_user_images server1 clock0 Rm_ok ''alice'') \<and>
   last_update_time (fst (delete_user_images server1 clock0 Rm_ok ''alice'')) = clock0 \<and>
   storage (fst (delete_user_images server1 clock0 Rm_ok ''alice'')) = fresh_storage \<and>
   get_user_images (storage (fst (delete_user_images server1 clock0 Rm_ok ''alice''))) ''alice''
     = Inr []"
    by metis
  from delete_user_images_outcomes [of "''alice''" server1 clock0 "Rm_fails []" "[]"] b c
  have 5: "\<not> snd (delete_user_images server1 clock0 (Rm_fails []) ''alice'') \<and>
   last_update_time (fst (delete_user_images server1 clock0 (Rm_fails []) ''alice''))
     = last_update_time server1"
    by simp
  from a b c 1 2 3 4 5 show ?thesis by blast
qed


section \<open>Listing images: collecting and sorting\<close>

lemma mset_sorted_reverse: "mset (sorted_reverse xs) = mset xs"
  by (simp add: sorted_reverse_def)

lemma descending_sorted_reverse:
  "sorted_wrt (\<lambda>a b. basename a \<ge> basename b) (sorted_reverse xs)"
proof -
  have "sorted (map basename (sort_key basename (rev xs)))"
    by (rule sorted_sort_key)
  then have "sorted_wrt (\<lambda>a b. basename a \<le> basename b) (sort_key basename (rev xs))"
    by (simp add: sorted_map)
  then show ?thesis
    by (simp add: sorted_reverse_def sorted_wrt_rev)
qed

lemma stable_sorted_reverse:
  "filter (\<lambda>y. basename y = k) (sorted_reverse xs) = filter (\<lambda>y. basename y = k) xs"
  by (simp add: sorted_reverse_def sort_key_stable flip: rev_filter)







lemma rfind_notin: "c \<notin> set p \<Longrightarrow> rfind p c = - 1"
  by (induction p) (auto simp: Let_def)

lemma rfind_nonneg_iff: "0 \<le> rfind p c \<longleftrightarrow> c \<in> set p"
  by (induction p) (auto simp: Let_def)

lemma rfind_in: "c \<in> set p \<Longrightarrow> 0 \<le> rfind p c \<and> rfind p c < int (length p)"
  by (induction p) (auto simp: Let_def rfind_nonneg_iff)

lemma rfind_append_in: "c \<in> set b \<Longrightarrow> rfind (a @ b) c = int (length a) + rfind b c"
  by (induction a) (auto simp: Let_def dest: rfind_in)

lemma rfind_append_notin: "c \<notin> set b \<Longrightarrow> rfind (a @ b) c = rfind a c"
  by (induction a) (auto simp: Let_def rfind_notin)

lemma basename_plain: "CHR ''/'' \<notin> set f \<Longrightarrow> basename f = f"
  by (simp add: basename_def rfind_notin)

lemma basename_after_sep: "CHR ''/'' \<notin> set f \<Longrightarrow> basename (pre @ CHR ''/'' # f) = f"
proof -
  assume f: "CHR ''/'' \<notin> set f"
  have "rfind ((pre @ ''/'') @ f) CHR ''/'' = rfind (pre @ ''/'') CHR ''/''"
    using f by (rule rfind_append_notin)
  also have "\<dots> = int (length pre) + rfind ''/'' CHR ''/''"
    by (rule rfind_append_in) simp
  finally have "rfind (pre @ CHR ''/'' # f) CHR ''/'' = int (length pre)"
    by simp
  then show ?thesis
    by (simp add: basename_def nat_add_distrib)
qed

lemma basename_join: "CHR ''/'' \<notin> set f \<Longrightarrow> basename (join a f) = f"
proof -
  assume f: "CHR ''/'' \<notin> set f"
  then have n: "\<not> startswith f ''/''"
    by (auto simp: startswith_sep)
  show ?thesis
  proof (cases "a = [] \<or> endswith a ''/''")
    case True
    then show ?thesis
    proof
      assume "a = []"
      then show ?thesis using n f by (simp add: join_def basename_plain)
    next
      assume "endswith a ''/''"
      then obtain pre where "a = pre @ ''/''"
        by (auto simp: endswith_def suffix_def)
      then show ?thesis
        using n f basename_after_sep [of f pre] by (simp add: join_def endswith_def)
    qed
  next
    case False
    then show ?thesis
      using n f basename_after_sep [of f a] by (simp add: join_def)
  qed
qed

lemma wf_names_children:
  "wf_names t \<Longrightarrow> f \<in> set (children t d) \<Longrightarrow> f \<noteq> [] \<and> CHR ''/'' \<notin> set f"
  by (auto simp: wf_names_def children_def list_all_iff dest!: bspec dest: last_in_set)


section \<open>What the listing leaves out\<close>

lemma drop_rfind:
  "c \<in> set p \<Longrightarrow> drop (nat (rfind p c)) p = c # rev (takeWhile (\<lambda>x. x \<noteq> c) (rev p))"
proof (induction p)
  case Nil
  then show ?case by simp
next
  case (Cons x xs)
  show ?case
  proof (cases "c \<in> set xs")
    case True
    then have r: "0 \<le> rfind xs c"
      by (simp add: rfind_nonneg_iff)
    have "takeWhile (\<lambda>x. x \<noteq> c) (rev xs @ [x]) = takeWhile (\<lambda>x. x \<noteq> c) (rev xs)"
      using True by (intro takeWhile_append1 [where x = c]) auto
    then show ?thesis
      using Cons.IH [OF True] r by (simp add: Let_def nat_add_distrib)
  next
    case False
    then have "x = c" using Cons.prems by simp
    moreover have "takeWhile (\<lambda>x. x \<noteq> c) (rev xs @ [c]) = rev xs @ takeWhile (\<lambda>x. x \<noteq> c) [c]"
      using False by (intro takeWhile_append2) auto
    ultimately show ?thesis
      using False by (simp add: Let_def rfind_notin)
  qed
qed

lemma splitext_stored:
  assumes "CHR ''/'' \<notin> set name"
  shows "snd (splitext (strftime d @ ''_'' @ name)) = extension name"
proof -
  let ?p = "strftime d @ ''_'' @ name"
  obtain c cs where c: "strftime d = c # cs" "c \<noteq> CHR ''/''" "c \<noteq> CHR ''.''"
    using strftime_hd by blast
  have sep: "rfind ?p CHR ''/'' = - 1"
    using assms strftime_no_sep by (intro rfind_notin) simp
  show ?thesis
  proof (cases "CHR ''.'' \<in> set name")
    case False
    then have "rfind ?p CHR ''.'' = - 1"
      using strftime_no_dot by (intro rfind_notin) simp
    then show ?thesis
      using False sep by (simp add: splitext_def extension_def)
  next
    case True
    have dot: "rfind ((strftime d @ ''_'') @ name) CHR ''.''
                 = int (length (strftime d @ ''_'')) + rfind name CHR ''.''"
      using True by (rule rfind_append_in)
    have r: "0 \<le> rfind name CHR ''.''"
      using True by (simp add: rfind_nonneg_iff)
    define k where "k = nat (rfind name CHR ''.'')"
    define n where "n = length (strftime d) + 1 + k"
    have dot': "rfind ?p CHR ''.'' = int n"
      using dot r by (simp add: k_def n_def)
    have h: "has_name_before ?p 0 n"
      using c by (subst has_name_before.simps) (simp add: n_def)
    have "splitext ?p = (take n ?p, drop n ?p)"
      unfolding splitext_def Let_def sep dot' using h by simp
    then have "snd (splitext ?p) = drop n ?p"
      by simp
    also have "\<dots> = drop k name"
      by (simp add: n_def)
    also have "\<dots> = extension name"
      using True by (simp add: k_def drop_rfind extension_def)
    finally show ?thesis .
  qed
qed


lemma set_sorted_reverse: "set (sorted_reverse xs) = set xs"
  by (simp add: sorted_reverse_def)

lemma listdir_names: "listdir t s = Inr names \<Longrightarrow> names = children t (components s)"
  by (auto simp: listdir_def split: option.splits entry.splits)

lemma scan_users_members:
  "scan_users t acc users = Inr ps \<Longrightarrow> y \<in> set ps \<Longrightarrow>
   y \<in> set acc \<or>
   (\<exists>u. y \<in> set (image_paths_in (join UPLOAD_DIR u)
                     (children t (components (join UPLOAD_DIR u)))))"
proof (induction users arbitrary: acc)
  case Nil
  then show ?case by simp
next
  case (Cons u users)
  from Cons.prems(1) obtain names where n: "listdir t (join UPLOAD_DIR u) = Inr names"
    and r: "scan_users t (acc @ image_paths_in (join UPLOAD_DIR u) names) users = Inr ps"
    by (auto simp: Let_def split: sum.splits)
  from Cons.IH [OF r Cons.prems(2)] listdir_names [OF n] show ?case
    by auto
qed

lemma listed_members:
  assumes "get_user_images t q = Inr ys" "y \<in> set ys"
  shows "\<exists>u. y \<in> set (image_paths_in (join UPLOAD_DIR u)
                       (children t (components (join UPLOAD_DIR u))))"
proof (cases "q = ALL_USERS_OPTION")
  case True
  with assms(1) obtain users ps where "scan_users t [] users = Inr ps" "ys = sorted_reverse ps"
    by (auto simp: get_user_images_def split: sum.splits)
  then show ?thesis
    using assms(2) scan_users_members [of t "[]" users ps y] by (simp add: set_sorted_reverse)
next
  case False
  show ?thesis
  proof (cases "q \<noteq> [] \<and> path_exists t (join UPLOAD_DIR q)")
    case True
    with assms(1) False obtain names where n: "listdir t (join UPLOAD_DIR q) = Inr names"
      and "ys = sorted_reverse (image_paths_in (join UPLOAD_DIR q) names)"
      by (auto simp: get_user_images_def Let_def split: sum.splits)
    then show ?thesis
      using assms(2) listdir_names [OF n] by (auto simp: set_sorted_reverse)
  next
    case no: False
    then have "ys = sorted_reverse []"
      using assms(1) False by (auto simp: get_user_images_def Let_def split: if_splits)
    then show ?thesis
      using assms(2) by (simp add: sorted_reverse_Nil)
  qed
qed

lemma listed_is_image:
  assumes "wf_names t" "get_user_images t q = Inr ys" "y \<in> set ys"
  shows "\<exists>f. lower (snd (splitext f)) \<in> image_extensions \<and> CHR ''/'' \<notin> set f \<and> basename y = f"
proof -
  from listed_members [OF assms(2,3)] obtain u f
    where f: "f \<in> set (children t (components (join UPLOAD_DIR u)))"
      "lower (snd (splitext f)) \<in> image_extensions" "y = join (join UPLOAD_DIR u) f"
    by (auto simp: image_paths_in_def)
  from wf_names_children [OF assms(1) f(1)] have "CHR ''/'' \<notin> set f" by simp
  then show ?thesis
    using f by (auto simp: basename_join)
qed

lemma components_names: "c \<in> set (components p) \<Longrightarrow> c \<noteq> [] \<and> CHR ''/'' \<notin> set c"
proof -
  have "c \<in> set (split_sep p) \<Longrightarrow> CHR ''/'' \<notin> set c" for c
    by (induction p arbitrary: c) (auto split: list.splits if_splits)
  then show "c \<in> set (components p) \<Longrightarrow> c \<noteq> [] \<and> CHR ''/'' \<notin> set c"
    by (simp add: components_def)
qed

lemma wf_names_update:
  "wf_names t \<Longrightarrow> list_all (\<lambda>c. c \<noteq> [] \<and> CHR ''/'' \<notin> set c) k \<Longrightarrow>
   wf_names (AList.update k v t)"
  by (induction t) (auto simp: wf_names_def)

lemma wf_names_mkdirs:
  "wf_names t \<Longrightarrow> list_all (\<lambda>c. c \<noteq> [] \<and> CHR ''/'' \<notin> set c) (pre @ cs) \<Longrightarrow>
   mkdirs t pre cs = Inr t' \<Longrightarrow> wf_names t'"
proof (induction cs arbitrary: t pre)
  case Nil
  then show ?case by simp
next
  case (Cons c cs)
  have w: "wf_names (t @ [(pre @ [c], Dir)])"
    using Cons.prems(1,2) by (simp add: wf_names_def)
  have l: "list_all (\<lambda>c. c \<noteq> [] \<and> CHR ''/'' \<notin> set c) ((pre @ [c]) @ cs)"
    using Cons.prems(2) by simp
  from Cons.prems(3) show ?case
    using Cons.IH [OF Cons.prems(1) l] Cons.IH [OF w l]
    by (auto split: option.splits entry.splits)
qed

lemma wf_names_makedirs: "wf_names t \<Longrightarrow> makedirs t s fault = Inr t' \<Longrightarrow> wf_names t'"
  using wf_names_mkdirs [of t "[]" "components s" t'] components_names [of _ s]
  by (auto simp: makedirs_def list_all_iff split: if_splits)

lemma wf_names_write_upload:
  "wf_names t \<Longrightarrow> write_upload t s data fault = (t', e) \<Longrightarrow> wf_names t'"
  using wf_names_update [of t "components s"] components_names [of _ s]
  by (auto simp: write_upload_def Let_def list_all_iff
      split: if_splits option.splits entry.splits io_fault.splits)

lemma upload_returned:
  assumes "result (api_upload_image s now1 now2 fault username timestamp img) = Inr r"
  shows "\<exists>t1 t2. makedirs (storage s) (join UPLOAD_DIR username) fault = Inr t1 \<and>
           write_upload t1 (join (join UPLOAD_DIR username)
                              (strftime now1 @ ''_'' @ filename img)) (file_data img) fault
             = (t2, None) \<and>
           storage (state (api_upload_image s now1 now2 fault username timestamp img)) = t2 \<and>
           server_path r = join (join UPLOAD_DIR username) (strftime now1 @ ''_'' @ filename img)"
  using assms
  by (auto simp: api_upload_image_def Let_def mark_updated_def
      split: if_splits sum.splits prod.splits option.splits)


text \<open>
  C9. In a file system whose names hold no separator, every path that
  \<open>get_user_images\<close> returns has a file name whose extension, in lower case, is one
  of \<open>.jpg\<close>, \<open>.jpeg\<close>, \<open>.png\<close>, \<open>.gif\<close>, \<open>.bmp\<close>, \<open>.webp\<close>. An
  upload that \<open>api_upload_image\<close> answers with its response, whose file name holds
  no separator and has any other extension, is on disk under the path of the response,
  with the uploaded bytes, and no call of \<open>get_user_images\<close> on the resulting file
  system returns that path, whatever user it is asked for.
\<close>

theorem only_image_extensions_listed:
  "(wf_names t \<longrightarrow> get_user_images t q = Inr ys \<longrightarrow> y \<in> set ys \<longrightarrow>
      lower (snd (splitext (basename y))) \<in> image_extensions)
   \<and> (wf_names (storage s) \<longrightarrow> CHR ''/'' \<notin> set (filename img) \<longrightarrow>
      lower (extension (filename img)) \<notin> image_extensions \<longrightarrow>
      result (api_upload_image s now1 now2 fault username timestamp img) = Inr r \<longrightarrow>
        lookup (storage (state (api_upload_image s now1 now2 fault username timestamp img)))
          (components (server_path r)) = Some (File (file_data img))
        \<and> (get_user_images
              (storage (state (api_upload_image s now1 now2 fault username timestamp img))) q'
             = Inr ys' \<longrightarrow> server_path r \<notin> set ys'))"
proof (intro conjI impI)
  assume "wf_names t" "get_user_images t q = Inr ys" "y \<in> set ys"
  from listed_is_image [OF this]
  show "lower (snd (splitext (basename y))) \<in> image_extensions"
    by auto
next
  assume w: "wf_names (storage s)" and n: "CHR ''/'' \<notin> set (filename img)"
    and x: "lower (extension (filename img)) \<notin> image_extensions"
    and r: "result (api_upload_image s now1 now2 fault username timestamp img) = Inr r"
  let ?stored = "strftime now1 @ ''_'' @ filename img"
  let ?out = "api_upload_image s now1 now2 fault username timestamp img"
  from upload_returned [OF r] obtain t1 t2
    where m: "makedirs (storage s) (join UPLOAD_DIR username) fault = Inr t1"
      and u: "write_upload t1 (join (join UPLOAD_DIR username) ?stored) (file_data img) fault
                = (t2, None)"
      and t2: "storage (state ?out) = t2"
      and p: "server_path r = join (join UPLOAD_DIR username) ?stored"
    by blast
  show "lookup (storage (state ?out)) (components (server_path r)) = Some (File (file_data img))"
    using write_upload_done [OF u] by (simp add: t2 p)
  have w2: "wf_names t2"
    using wf_names_write_upload [OF wf_names_makedirs [OF w m] u] .
  have sn: "CHR ''/'' \<notin> set ?stored"
    using n strftime_no_sep by simp
  have b: "basename (server_path r) = ?stored"
    unfolding p using sn by (rule basename_join)
  show "server_path r \<notin> set ys'" if g: "get_user_images (storage (state ?out)) q' = Inr ys'"
  proof
    assume "server_path r \<in> set ys'"
    from listed_is_image [OF w2 g [unfolded t2] this]
    have "lower (snd (splitext ?stored)) \<in> image_extensions"
      using b by auto
    then show False
      using x unfolding splitext_stored [OF n] by contradiction
  qed
qed


theorem only_image_extensions_listed_witness:
  "wf_names gallery_storage \<and>
   get_user_images gallery_storage ''alice''
     = Inr [''uploads/alice/20240102_030405000009_photo.JPG'',
            ''uploads/alice/20240102_030405000006_screenshot.png''] \<and>
   ''uploads/alice/20240102_030405000009_photo.JPG''
     \<in> set [''uploads/alice/20240102_030405000009_photo.JPG'',
             ''uploads/alice/20240102_030405000006_screenshot.png''] \<and>
   lower (snd (splitext (basename ''uploads/alice/20240102_030405000009_photo.JPG'')))
     \<in> image_extensions \<and>
   wf_names (storage server1) \<and>
   CHR ''/'' \<notin> set (filename mislabelled) \<and>
   lower (extension (filename mislabelled)) \<notin> image_extensions \<and>
   result (api_upload_image server1 clock1 clock1 No_fault ''alice'' ''2024-01-02T03:04:06''
             mislabelled)
     = Inr \<lparr>status_code = 201, message = message_uploaded,
            server_path = ''uploads/alice/20240102_030405000007_notes.txt''\<rparr> \<and>
   lookup (storage (state (api_upload_image server1 clock1 clock1 No_fault ''alice''
                             ''2024-01-02T03:04:06'' mislabelled)))
     (components ''uploads/alice/20240102_030405000007_notes.txt'')
     = Some (File (file_data mislabelled)) \<and>
   get_user_images (storage (state (api_upload_image server1 clock1 clock1 No_fault ''alice''
                                      ''2024-01-02T03:04:06'' mislabelled))) ''alice''
     = Inr [''uploads/alice/20240102_030405000006_screenshot.png''] \<and>
   ''uploads/alice/20240102_030405000007_notes.txt''
     \<notin> set [''uploads/alice/20240102_030405000006_screenshot.png'']"
proof -
  have a: "wf_names gallery_storage"
    by (simp add: wf_names_def gallery_storage_def)
  have b: "get_user_images gallery_storage ''alice''
     = Inr [''uploads/alice/20240102_030405000009_photo.JPG'',
            ''uploads/alice/20240102_030405000006_screenshot.png'']"
    by (simp add: get_user_images_def image_paths_in_def sorted_reverse_def
        image_extensions_def ALL_USERS_OPTION_def gallery_storage_def path_eval fs_eval
        less_eq_char_def less_char_def Let_def)
  have c: "''uploads/alice/20240102_030405000009_photo.JPG''
     \<in> set [''uploads/alice/20240102_030405000009_photo.JPG'',
             ''uploads/alice/20240102_030405000006_screenshot.png'']"
    by simp
  have d: "wf_names (storage server1)"
    by (simp add: wf_names_def example_defs)
  have e: "CHR ''/'' \<notin> set (filename mislabelled)"
    by (simp add: mislabelled_def)
  have f: "lower (extension (filename mislabelled)) \<notin> image_extensions"
    by (simp add: mislabelled_def extension_def image_extensions_def path_eval)
  have g: "result (api_upload_image server1 clock1 clock1 No_fault ''alice''
                     ''2024-01-02T03:04:06'' mislabelled)
     = Inr \<lparr>status_code = 201, message = message_uploaded,
            server_path = ''uploads/alice/20240102_030405000007_notes.txt''\<rparr>"
    by (simp add: api_upload_image_def mark_updated_def mislabelled_def
        path_eval fs_eval clock_eval example_defs Let_def)
  have h: "get_user_images (storage (state (api_upload_image server1 clock1 clock1 No_fault
             ''alice'' ''2024-01-02T03:04:06'' mislabelled))) ''alice''
     = Inr [''uploads/alice/20240102_030405000006_screenshot.png'']"
    by (simp add: api_upload_image_def mark_updated_def mislabelled_def
        get_user_images_def image_paths_in_def sorted_reverse_def
        image_extensions_def ALL_USERS_OPTION_def
        path_eval fs_eval clock_eval example_defs Let_def)
  note inst = only_image_extensions_listed
    [of gallery_storage "''alice''"
        "[''uploads/alice/20240102_030405000009_photo.JPG'',
          ''uploads/alice/20240102_030405000006_screenshot.png'']"
        "''uploads/alice/20240102_030405000009_photo.JPG''"
        server1 mislabelled clock1 clock1 No_fault "''alice''" "''2024-01-02T03:04:06''"
        "\<lparr>status_code = 201, message = message_uploaded,
          server_path = ''uploads/alice/20240102_030405000007_notes.txt''\<rparr>"
        "''alice''" "[''uploads/alice/20240102_030405000006_screenshot.png'']"]
  from inst a b c have 1:
    "lower (snd (splitext (basename ''uploads/alice/20240102_030405000009_photo.JPG'')))
       \<in> image_extensions"
    by blast
  from inst d e f g h have 2:
    "lookup (storage (state (api_upload_image server1 clock1 clock1 No_fault ''alice''
                             ''2024-01-02T03:04:06'' mislabelled)))
       (components ''uploads/alice/20240102_030405000007_notes.txt'')
       = Some (File (file_data mislabelled)) \<and>
     ''uploads/alice/20240102_030405000007_notes.txt''
       \<notin> set [''uploads/alice/20240102_030405000006_screenshot.png'']"
    by simp
  from a b c d e f g h 1 2 show ?thesis
    by blast
qed


section \<open>Listing images: the stored images of the persisted layout\<close>







lemma layout_entryD:
  assumes "layout_entry t (q, e)"
  shows "(q = [''uploads''] \<and> e = Dir) \<or>
     (\<exists>u. q = [''uploads'', u] \<and> e = Dir \<and> plain u \<and> ([''uploads''], Dir) \<in> set t) \<or>
     (\<exists>u f b. q = [''uploads'', u, f] \<and> e = File b \<and> plain u \<and> plain f \<and>
        ([''uploads'', u], Dir) \<in> set t)"
  using assms by (cases "(t, (q, e))" rule: layout_entry.cases) auto

lemma layout_member: "layout t \<Longrightarrow> (q, e) \<in> set t \<Longrightarrow> layout_entry t (q, e)"
  by (auto simp: layout_def list_all_iff)



lemma plain_uploads: "plain ''uploads''"
  by (simp add: plain_def)

lemma layout_wf_names: "layout t \<Longrightarrow> wf_names t"
  unfolding wf_names_def list_all_iff
proof (intro ballI)
  fix x assume t: "layout t" and x: "x \<in> set t"
  obtain q e where qe: "x = (q, e)" by (cases x)
  from layout_entryD [OF layout_member [OF t x [unfolded qe]]]
  show "case x of (q, e) \<Rightarrow> \<forall>c\<in>set q. c \<noteq> [] \<and> CHR ''/'' \<notin> set c"
    unfolding qe by (auto simp: plain_def)
qed






















end
